theory Spec2Isabelle
  imports
    Complex_Main
    "HOL-Library.Sublist"
    "HOL-Library.Char_ord"
    "HOL-Library.List_Lexorder"
    "HOL-Library.Product_Lexorder"
begin

section \<open>Data model (ons-client.ts)\<close>

text \<open>
  JavaScript numbers are modelled by the rationals (every finite double is one), strings by
  \<^typ>\<open>string\<close>, and values the source types as \<open>any\<close> by a JSON tree. An object is
  the list of its own entries in enumeration order, so \<open>Object.entries\<close> and
  \<open>Object.keys\<close> read the list off as it is.
\<close>

type_synonym number = rat

datatype json =
    JNull
  | JBool bool
  | JNum number
  | JStr string
  | JArr "json list"
  | JObj "(string \<times> json) list"

record ONSDimension =
  dim_id :: string
  dim_name :: string
  dim_label :: string

record ONSDataset =
  ds_id :: string
  ds_title :: string
  ds_description :: string
  ds_state :: string
  ds_type :: string
  ds_uri :: string
  ds_dimensions :: "ONSDimension list option"

record ONSDatasetList =
  count :: number
  items :: "ONSDataset list"
  limit :: number
  offset :: number
  total_count :: number

record ONSObservation =
  obs_dimensions :: "(string \<times> string) list"
  obs_observation :: string
  obs_metadata :: "(string \<times> json) list option"

record ONSObservationResponse =
  resp_observations :: "ONSObservation list"
  resp_dimensions :: "(string \<times> json) list"
  resp_links :: "(string \<times> json) list"
  resp_total_observations :: number

section \<open>The HTTP client wrapper\<close>

text \<open>
  What axios hands to the rejection interceptor: \<open>error.response\<close> (absent on a transport
  failure) with its \<open>status\<close> and the string \<open>data?.message\<close> of the body when the body
  has one, and \<open>error.message\<close>.
\<close>

record axios_response =
  status :: nat
  data_message :: "string option"

record axios_error =
  response :: "axios_response option"
  message :: string

text \<open>Every value the client and the service throw is an \<open>Error\<close> with a message.\<close>

datatype js_error = Error string

fun error_message :: "js_error \<Rightarrow> string" where
  "error_message (Error m) = m"

type_synonym 'a promise = "js_error + 'a"

text \<open>Decimal rendering of a status code inside a template literal.\<close>

definition digit_char :: "nat \<Rightarrow> char" where
  "digit_char d = char_of (48 + d)"

fun number_to_string :: "nat \<Rightarrow> string" where
  "number_to_string n =
     (if n < 10 then [digit_char n]
      else number_to_string (n div 10) @ [digit_char (n mod 10)])"

declare number_to_string.simps [simp del]

text \<open>\<open>error.response.data?.message || error.message\<close>: an empty string is falsy.\<close>

definition upstream_message :: "axios_response \<Rightarrow> string \<Rightarrow> string" where
  "upstream_message r fallback =
     (case data_message r of
        None \<Rightarrow> fallback
      | Some m \<Rightarrow> if m = [] then fallback else m)"

definition interceptor :: "axios_error \<Rightarrow> js_error" where
  "interceptor err =
     (case response err of
        Some r \<Rightarrow>
          (let st = status r; msg = upstream_message r (message err) in
           if st = 404 then Error (''ONS API: Resource not found - '' @ msg)
           else if st = 400 then Error (''ONS API: Bad request - '' @ msg)
           else if st = 429 then Error (''ONS API: Rate limit exceeded - '' @ msg)
           else if st = 500 then Error (''ONS API: Server error - '' @ msg)
           else Error (''ONS API: HTTP '' @ number_to_string st @ '' - '' @ msg))
      | None \<Rightarrow> Error (''ONS API: Network error - '' @ message err))"

text \<open>
  The upstream API, as seen through \<open>client.get\<close>: for each endpoint, what the transport
  answers to the URL (and, for the listing, to the \<open>limit\<close> and \<open>offset\<close> parameters):
  a rejection or the body, read at the type the caller declares for it.
\<close>

record upstream =
  GET_datasets :: "number \<Rightarrow> number \<Rightarrow> axios_error + ONSDatasetList"
  GET_dataset :: "string \<Rightarrow> axios_error + ONSDataset"
  GET_observations :: "string \<Rightarrow> axios_error + ONSObservationResponse"
  GET_options :: "string \<Rightarrow> axios_error + json"

text \<open>A request through the client: a rejection passes through the interceptor.\<close>

definition client_get :: "axios_error + 'a \<Rightarrow> 'a promise" where
  "client_get outcome = (case outcome of Inl err \<Rightarrow> Inl (interceptor err) | Inr body \<Rightarrow> Inr body)"

section \<open>The API client\<close>

definition client_listDatasets :: "upstream \<Rightarrow> number \<Rightarrow> number \<Rightarrow> ONSDatasetList promise" where
  "client_listDatasets up lmt ofs = client_get (GET_datasets up lmt ofs)"

definition client_getDataset :: "upstream \<Rightarrow> string \<Rightarrow> ONSDataset promise" where
  "client_getDataset up datasetId = client_get (GET_dataset up (''/datasets/'' @ datasetId))"

text \<open>\<open>Array.prototype.join\<close> on strings.\<close>

fun join :: "string \<Rightarrow> string list \<Rightarrow> string" where
  "join sep [] = []"
| "join sep [x] = x"
| "join sep (x # y # ys) = x @ sep @ join sep (y # ys)"

definition dimensionParams :: "(string \<times> string) list \<Rightarrow> string" where
  "dimensionParams dimensions = join ''&'' (map (\<lambda>(key, val). key @ ''='' @ val) dimensions)"

definition observations_url :: "string \<Rightarrow> string \<Rightarrow> string \<Rightarrow> (string \<times> string) list \<Rightarrow> string" where
  "observations_url datasetId edition version dimensions =
     ''/datasets/'' @ datasetId @ ''/editions/'' @ edition @ ''/versions/'' @ version
       @ ''/observations?'' @ dimensionParams dimensions"

definition client_getObservations ::
  "upstream \<Rightarrow> string \<Rightarrow> string \<Rightarrow> string \<Rightarrow> (string \<times> string) list \<Rightarrow> ONSObservationResponse promise" where
  "client_getObservations up datasetId edition version dimensions =
     client_get (GET_observations up (observations_url datasetId edition version dimensions))"

definition client_getDimensionOptions :: "upstream \<Rightarrow> string \<Rightarrow> string \<Rightarrow> json promise" where
  "client_getDimensionOptions up datasetId dimensionId =
     client_get (GET_options up (''/datasets/'' @ datasetId @ ''/dimensions/'' @ dimensionId @ ''/options''))"


text \<open>
  \<open>String.prototype.toLowerCase\<close> is the host's case conversion over all of Unicode, so it
  is a parameter of the search: a function from strings to strings.
\<close>

text \<open>\<open>s.includes(t)\<close>: \<open>t\<close> starts at some position of \<open>s\<close>.\<close>

fun str_includes :: "string \<Rightarrow> string \<Rightarrow> bool" where
  "str_includes [] t = (t = [])"
| "str_includes (c # s) t = (prefix t (c # s) \<or> str_includes s t)"

text \<open>
  \<open>Array.prototype.slice(0, end)\<close>: the end is truncated to an integer; a negative end
  counts from the end of the array.
\<close>

definition ToIntegerOrInfinity :: "number \<Rightarrow> int" where
  "ToIntegerOrInfinity x = (if x < 0 then - \<lfloor>- x\<rfloor> else \<lfloor>x\<rfloor>)"

definition slice0 :: "'a list \<Rightarrow> number \<Rightarrow> 'a list" where
  "slice0 xs end_arg =
     (let len = int (length xs);
          relativeEnd = ToIntegerOrInfinity end_arg;
          final = (if relativeEnd < 0 then max (len + relativeEnd) 0 else min relativeEnd len)
      in take (nat final) xs)"

definition dataset_matches :: "(string \<Rightarrow> string) \<Rightarrow> string \<Rightarrow> ONSDataset \<Rightarrow> bool" where
  "dataset_matches toLowerCase searchTerm dataset =
     (str_includes (toLowerCase (ds_title dataset)) searchTerm \<or>
      str_includes (toLowerCase (ds_description dataset)) searchTerm \<or>
      str_includes (toLowerCase (ds_id dataset)) searchTerm)"

definition client_searchDatasets ::
  "(string \<Rightarrow> string) \<Rightarrow> upstream \<Rightarrow> string \<Rightarrow> number \<Rightarrow> ONSDatasetList promise" where
  "client_searchDatasets toLowerCase up query lmt =
     (case client_listDatasets up 100 0 of
        Inl e \<Rightarrow> Inl e
      | Inr allDatasets \<Rightarrow>
          (let searchTerm = toLowerCase query;
               filteredItems =
                 slice0 (filter (dataset_matches toLowerCase searchTerm) (items allDatasets)) lmt
           in Inr \<lparr>count = of_nat (length filteredItems),
                    items = filteredItems,
                    limit = lmt,
                    offset = 0,
                    total_count = of_nat (length filteredItems)\<rparr>))"

section \<open>The dataset service (dataset-service.ts)\<close>

text \<open>The first four operations delegate to the client.\<close>

definition service_listDatasets :: "upstream \<Rightarrow> number \<Rightarrow> number \<Rightarrow> ONSDatasetList promise" where
  "service_listDatasets up lmt ofs = client_listDatasets up lmt ofs"

definition service_getDataset :: "upstream \<Rightarrow> string \<Rightarrow> ONSDataset promise" where
  "service_getDataset up datasetId = client_getDataset up datasetId"

definition service_searchDatasets ::
  "(string \<Rightarrow> string) \<Rightarrow> upstream \<Rightarrow> string \<Rightarrow> number \<Rightarrow> ONSDatasetList promise" where
  "service_searchDatasets toLowerCase up query lmt = client_searchDatasets toLowerCase up query lmt"

definition service_getObservations ::
  "upstream \<Rightarrow> string \<Rightarrow> string \<Rightarrow> string \<Rightarrow> (string \<times> string) list \<Rightarrow> ONSObservationResponse promise" where
  "service_getObservations up datasetId edition version dimensions =
     client_getObservations up datasetId edition version dimensions"

subsection \<open>getLatestData\<close>

text \<open>
  An optional string argument is \<open>None\<close> when it is \<open>undefined\<close>; \<open>if (geography)\<close> takes
  the branch for a string that is not empty.
\<close>

fun truthy :: "string option \<Rightarrow> bool" where
  "truthy None = False"
| "truthy (Some s) = (s \<noteq> [])"

text \<open>
  \<open>obj[key] = value\<close> on an object with string keys: an existing key keeps its place, a new
  key goes last.
\<close>

fun set_prop :: "string \<Rightarrow> 'v \<Rightarrow> (string \<times> 'v) list \<Rightarrow> (string \<times> 'v) list" where
  "set_prop k v [] = [(k, v)]"
| "set_prop k v ((k', v') # rest) =
     (if k' = k then (k, v) # rest else (k', v') # set_prop k v rest)"

text \<open>\<open>dataset.dimensions || []\<close>\<close>

definition declared_dimensions :: "ONSDataset \<Rightarrow> ONSDimension list" where
  "declared_dimensions dataset = (case ds_dimensions dataset of None \<Rightarrow> [] | Some ds \<Rightarrow> ds)"

text \<open>\<open>dataset.dimensions?.some(d => d.id === name)\<close>, read as a condition.\<close>

definition declares :: "ONSDataset \<Rightarrow> string \<Rightarrow> bool" where
  "declares dataset name =
     (case ds_dimensions dataset of
        None \<Rightarrow> False
      | Some ds \<Rightarrow> list_ex (\<lambda>d. dim_id d = name) ds)"

text \<open>The dimension filter that \<open>getLatestData\<close> builds (lines 62 to 85).\<close>

definition latest_dimensions ::
  "ONSDataset \<Rightarrow> string option \<Rightarrow> string option \<Rightarrow> (string \<times> string) list" where
  "latest_dimensions dataset geography timePeriod =
     (let d0 = [];
          d1 = (case geography of
                  Some g \<Rightarrow> if truthy geography then set_prop ''geography'' g d0 else d0
                | None \<Rightarrow> d0);
          d2 = (case timePeriod of
                  Some t \<Rightarrow> if truthy timePeriod then set_prop ''time'' t d1 else d1
                | None \<Rightarrow> d1)
      in if length (map fst d2) = 0
         then (let d3 = (if declares dataset ''time'' then set_prop ''time'' ''*'' d2 else d2);
                   d4 = (if declares dataset ''geography''
                         then set_prop ''geography'' ''K02000001'' d3 else d3)
               in d4)
         else d2)"

record filters =
  fa_geography :: "string option"
  fa_time_period :: "string option"

record LatestData =
  ld_dataset_id :: string
  ld_dataset_title :: string
  ld_dataset_description :: string
  filters_applied :: filters
  dimensions_used :: "(string \<times> string) list"
  ld_total_observations :: number
  ld_observations :: "ONSObservation list"
  ld_metadata_dimensions :: "(string \<times> json) list"
  ld_metadata_links :: "(string \<times> json) list"

definition service_getLatestData ::
  "upstream \<Rightarrow> string \<Rightarrow> string option \<Rightarrow> string option \<Rightarrow> LatestData promise" where
  "service_getLatestData up datasetId geography timePeriod =
     (case
        (case service_getDataset up datasetId of
           Inl e \<Rightarrow> Inl e
         | Inr dataset \<Rightarrow>
             (let dimensions = latest_dimensions dataset geography timePeriod in
              case service_getObservations up datasetId ''time-series'' ''latest'' dimensions of
                Inl e \<Rightarrow> Inl e
              | Inr obs \<Rightarrow>
                  Inr \<lparr>ld_dataset_id = datasetId,
                       ld_dataset_title = ds_title dataset,
                       ld_dataset_description = ds_description dataset,
                       filters_applied = \<lparr>fa_geography = geography, fa_time_period = timePeriod\<rparr>,
                       dimensions_used = dimensions,
                       ld_total_observations = resp_total_observations obs,
                       ld_observations = resp_observations obs,
                       ld_metadata_dimensions = resp_dimensions obs,
                       ld_metadata_links = resp_links obs\<rparr>))
      of
        Inl err \<Rightarrow>
          Inl (Error (''Failed to get latest data for '' @ datasetId @ '': '' @ error_message err))
      | Inr r \<Rightarrow> Inr r)"

subsection \<open>getTimeSeriesData\<close>

text \<open>\<open>a.dimensions.time || ''\<close>.\<close>

definition time_of :: "ONSObservation \<Rightarrow> string" where
  "time_of a = (case map_of (obs_dimensions a) ''time'' of None \<Rightarrow> [] | Some t \<Rightarrow> t)"

text \<open>
  \<open>Array.prototype.sort(comparefn)\<close>: a stable sort; \<open>a\<close> stays before \<open>b\<close> unless
  \<open>comparefn(a, b) > 0\<close>.
\<close>

fun insert_sorted :: "('a \<Rightarrow> 'a \<Rightarrow> int) \<Rightarrow> 'a \<Rightarrow> 'a list \<Rightarrow> 'a list" where
  "insert_sorted comparefn a [] = [a]"
| "insert_sorted comparefn a (b # bs) =
     (if comparefn a b \<le> 0 then a # b # bs else b # insert_sorted comparefn a bs)"

fun array_sort :: "('a \<Rightarrow> 'a \<Rightarrow> int) \<Rightarrow> 'a list \<Rightarrow> 'a list" where
  "array_sort comparefn [] = []"
| "array_sort comparefn (a # as) = insert_sorted comparefn a (array_sort comparefn as)"

record TimeSeries =
  ts_dataset_id :: string
  ts_geography :: string
  time_series :: "ONSObservation list"
  ts_total_observations :: number

text \<open>
  \<open>String.prototype.localeCompare\<close> is the host's collation, so it is a parameter: a
  function that returns a negative number, zero or a positive number.
\<close>

definition service_getTimeSeriesData ::
  "(string \<Rightarrow> string \<Rightarrow> int) \<Rightarrow> upstream \<Rightarrow> string \<Rightarrow> string option \<Rightarrow> TimeSeries promise" where
  "service_getTimeSeriesData localeCompare up datasetId geography_arg =
     (let geography = (case geography_arg of None \<Rightarrow> ''K02000001'' | Some g \<Rightarrow> g);
          dimensions = [(''geography'', geography), (''time'', ''*'')]
      in case service_getObservations up datasetId ''time-series'' ''latest'' dimensions of
           Inl e \<Rightarrow> Inl e
         | Inr obs \<Rightarrow>
             (let sortedObservations =
                    array_sort (\<lambda>a b. localeCompare (time_of a) (time_of b)) (resp_observations obs)
              in Inr \<lparr>ts_dataset_id = datasetId,
                       ts_geography = geography,
                       time_series = sortedObservations,
                       ts_total_observations = resp_total_observations obs\<rparr>))"

subsection \<open>getDatasetDimensions\<close>

fun js_truthy :: "json \<Rightarrow> bool" where
  "js_truthy JNull = False"
| "js_truthy (JBool b) = b"
| "js_truthy (JNum n) = (n \<noteq> 0)"
| "js_truthy (JStr s) = (s \<noteq> [])"
| "js_truthy (JArr xs) = True"
| "js_truthy (JObj fs) = True"

text \<open>
  \<open>options.items || []\<close>: reading a property of \<open>null\<close> throws a TypeError; any other
  value without a truthy \<open>items\<close> gives the empty array.
\<close>

fun options_items :: "json \<Rightarrow> json promise" where
  "options_items JNull = Inl (Error ''Cannot read properties of null (reading 'items')'')"
| "options_items (JObj fs) =
     (case map_of fs ''items'' of
        None \<Rightarrow> Inr (JArr [])
      | Some v \<Rightarrow> if js_truthy v then Inr v else Inr (JArr []))"
| "options_items other = Inr (JArr [])"

record DimensionDetail =
  dd_id :: string
  dd_name :: string
  dd_label :: string
  dd_options :: json
  dd_error :: "string option"

record DatasetDimensions =
  dims_dataset_id :: string
  dims_dataset_title :: string
  dims_dimensions :: "DimensionDetail list"

text \<open>The body of the \<open>async (dim) => ...\<close> callback: it catches everything it throws.\<close>

definition dimension_detail :: "upstream \<Rightarrow> string \<Rightarrow> ONSDimension \<Rightarrow> DimensionDetail" where
  "dimension_detail up datasetId dimension =
     (case
        (case client_getDimensionOptions up datasetId (dim_id dimension) of
           Inl e \<Rightarrow> Inl e
         | Inr opts \<Rightarrow> options_items opts)
      of
        Inr its \<Rightarrow>
          \<lparr>dd_id = dim_id dimension, dd_name = dim_name dimension, dd_label = dim_label dimension,
           dd_options = its, dd_error = None\<rparr>
      | Inl err \<Rightarrow>
          \<lparr>dd_id = dim_id dimension, dd_name = dim_name dimension, dd_label = dim_label dimension,
           dd_options = JArr [], dd_error = Some (error_message err)\<rparr>)"

definition service_getDatasetDimensions :: "upstream \<Rightarrow> string \<Rightarrow> DatasetDimensions promise" where
  "service_getDatasetDimensions up datasetId =
     (case service_getDataset up datasetId of
        Inl e \<Rightarrow> Inl e
      | Inr dataset \<Rightarrow>
          (let dimensions = declared_dimensions dataset;
               dimensionDetails = map (dimension_detail up datasetId) dimensions
           in Inr \<lparr>dims_dataset_id = datasetId,
                    dims_dataset_title = ds_title dataset,
                    dims_dimensions = dimensionDetails\<rparr>))"

section \<open>The tool adapter (index.ts)\<close>

subsection \<open>Argument schemas\<close>

text \<open>
  The arguments of a call are absent or an object. A schema either returns the parsed
  arguments or the issues of a \<open>ZodError\<close>; every issue these schemas can raise is an
  \<open>invalid_type\<close> with the path, the expected type and the type received (\<open>undefined\<close>
  for a required field that is missing).
\<close>

datatype zod_issue = invalid_type "string list" string string

type_synonym 'a parsed = "zod_issue list + 'a"

fun parsedType :: "json option \<Rightarrow> string" where
  "parsedType None = ''undefined''"
| "parsedType (Some JNull) = ''null''"
| "parsedType (Some (JBool b)) = ''boolean''"
| "parsedType (Some (JNum n)) = ''number''"
| "parsedType (Some (JStr s)) = ''string''"
| "parsedType (Some (JArr xs)) = ''array''"
| "parsedType (Some (JObj fs)) = ''object''"

text \<open>\<open>z.number().optional().default(d)\<close>\<close>

fun z_number_default :: "number \<Rightarrow> string list \<Rightarrow> json option \<Rightarrow> number parsed" where
  "z_number_default d path None = Inr d"
| "z_number_default d path (Some (JNum n)) = Inr n"
| "z_number_default d path other = Inl [invalid_type path ''number'' (parsedType other)]"

text \<open>\<open>z.string()\<close>\<close>

fun z_string :: "string list \<Rightarrow> json option \<Rightarrow> string parsed" where
  "z_string path (Some (JStr s)) = Inr s"
| "z_string path other = Inl [invalid_type path ''string'' (parsedType other)]"

text \<open>\<open>z.string().optional()\<close>\<close>

fun z_string_optional :: "string list \<Rightarrow> json option \<Rightarrow> string option parsed" where
  "z_string_optional path None = Inr None"
| "z_string_optional path (Some (JStr s)) = Inr (Some s)"
| "z_string_optional path other = Inl [invalid_type path ''string'' (parsedType other)]"

text \<open>\<open>z.string().optional().default(d)\<close>\<close>

fun z_string_default :: "string \<Rightarrow> string list \<Rightarrow> json option \<Rightarrow> string parsed" where
  "z_string_default d path None = Inr d"
| "z_string_default d path (Some (JStr s)) = Inr s"
| "z_string_default d path other = Inl [invalid_type path ''string'' (parsedType other)]"

text \<open>\<open>z.record(z.string())\<close>: an object all of whose values are strings.\<close>

fun record_entries :: "string list \<Rightarrow> (string \<times> json) list \<Rightarrow> (string \<times> string) list parsed" where
  "record_entries path [] = Inr []"
| "record_entries path ((k, v) # rest) =
     (case (z_string (path @ [k]) (Some v), record_entries path rest) of
        (Inr s, Inr es) \<Rightarrow> Inr ((k, s) # es)
      | (Inr s, Inl js) \<Rightarrow> Inl js
      | (Inl errs, Inr es) \<Rightarrow> Inl errs
      | (Inl errs, Inl js) \<Rightarrow> Inl (errs @ js))"

fun z_record_string :: "string list \<Rightarrow> json option \<Rightarrow> (string \<times> string) list parsed" where
  "z_record_string path (Some (JObj fs)) = record_entries path fs"
| "z_record_string path other = Inl [invalid_type path ''object'' (parsedType other)]"

text \<open>The fields of a \<open>z.object\<close> are all parsed, and their issues collected in order.\<close>

fun both :: "'a parsed \<Rightarrow> 'b parsed \<Rightarrow> ('a \<times> 'b) parsed" where
  "both (Inr a) (Inr b) = Inr (a, b)"
| "both (Inr a) (Inl js) = Inl js"
| "both (Inl errs) (Inr b) = Inl errs"
| "both (Inl errs) (Inl js) = Inl (errs @ js)"

definition ListDatasetsArgsSchema :: "(string \<times> json) list option \<Rightarrow> (number \<times> number) parsed" where
  "ListDatasetsArgsSchema args =
     (case args of
        None \<Rightarrow> Inl [invalid_type [] ''object'' ''undefined'']
      | Some fs \<Rightarrow>
          both (z_number_default 20 [''limit''] (map_of fs ''limit''))
               (z_number_default 0 [''offset''] (map_of fs ''offset'')))"

definition GetDatasetArgsSchema :: "(string \<times> json) list option \<Rightarrow> string parsed" where
  "GetDatasetArgsSchema args =
     (case args of
        None \<Rightarrow> Inl [invalid_type [] ''object'' ''undefined'']
      | Some fs \<Rightarrow> z_string [''dataset_id''] (map_of fs ''dataset_id''))"

definition SearchDatasetsArgsSchema :: "(string \<times> json) list option \<Rightarrow> (string \<times> number) parsed" where
  "SearchDatasetsArgsSchema args =
     (case args of
        None \<Rightarrow> Inl [invalid_type [] ''object'' ''undefined'']
      | Some fs \<Rightarrow>
          both (z_string [''query''] (map_of fs ''query''))
               (z_number_default 10 [''limit''] (map_of fs ''limit'')))"

definition GetObservationArgsSchema ::
  "(string \<times> json) list option \<Rightarrow> (string \<times> string \<times> string \<times> (string \<times> string) list) parsed" where
  "GetObservationArgsSchema args =
     (case args of
        None \<Rightarrow> Inl [invalid_type [] ''object'' ''undefined'']
      | Some fs \<Rightarrow>
          both (z_string [''dataset_id''] (map_of fs ''dataset_id''))
            (both (z_string_default ''time-series'' [''edition''] (map_of fs ''edition''))
               (both (z_string_default ''latest'' [''version''] (map_of fs ''version''))
                     (z_record_string [''dimensions''] (map_of fs ''dimensions'')))))"

definition GetLatestDataArgsSchema ::
  "(string \<times> json) list option \<Rightarrow> (string \<times> string option \<times> string option) parsed" where
  "GetLatestDataArgsSchema args =
     (case args of
        None \<Rightarrow> Inl [invalid_type [] ''object'' ''undefined'']
      | Some fs \<Rightarrow>
          both (z_string [''dataset_id''] (map_of fs ''dataset_id''))
            (both (z_string_optional [''geography''] (map_of fs ''geography''))
                  (z_string_optional [''time_period''] (map_of fs ''time_period''))))"

subsection \<open>The CallTool handler\<close>

datatype ErrorCode = MethodNotFound | InvalidParams | InvalidRequest

text \<open>
  What the handler's \<open>try\<close> block can throw: a \<open>ZodError\<close> from a schema, an \<open>McpError\<close>
  (its code and the message it is constructed with), or whatever the service threw.
\<close>

datatype thrown =
    ZodError "zod_issue list"
  | McpError ErrorCode string
  | Thrown js_error

text \<open>The object each branch serialises with \<open>JSON.stringify\<close> into the text content.\<close>

datatype tool_result =
    ListDatasetsResult "ONSDataset list" number number number
  | GetDatasetResult ONSDataset
  | SearchDatasetsResult string "ONSDataset list" number
  | GetObservationResult ONSObservationResponse
  | GetLatestDataResult LatestData

definition parse :: "'a parsed \<Rightarrow> thrown + 'a" where
  "parse p = (case p of Inl issues \<Rightarrow> Inl (ZodError issues) | Inr a \<Rightarrow> Inr a)"

definition await :: "'a promise \<Rightarrow> thrown + 'a" where
  "await p = (case p of Inl e \<Rightarrow> Inl (Thrown e) | Inr a \<Rightarrow> Inr a)"

definition tool_switch ::
  "(string \<Rightarrow> string) \<Rightarrow> upstream \<Rightarrow> string \<Rightarrow> (string \<times> json) list option
     \<Rightarrow> thrown + tool_result" where
  "tool_switch toLowerCase up name args =
     (if name = ''list_datasets'' then
        (case parse (ListDatasetsArgsSchema args) of
           Inl t \<Rightarrow> Inl t
         | Inr (lmt, ofs) \<Rightarrow>
             (case await (service_listDatasets up lmt ofs) of
                Inl t \<Rightarrow> Inl t
              | Inr datasets \<Rightarrow>
                  Inr (ListDatasetsResult (items datasets) (total_count datasets) lmt ofs)))
      else if name = ''get_dataset'' then
        (case parse (GetDatasetArgsSchema args) of
           Inl t \<Rightarrow> Inl t
         | Inr dataset_id \<Rightarrow>
             (case await (service_getDataset up dataset_id) of
                Inl t \<Rightarrow> Inl t
              | Inr dataset \<Rightarrow> Inr (GetDatasetResult dataset)))
      else if name = ''search_datasets'' then
        (case parse (SearchDatasetsArgsSchema args) of
           Inl t \<Rightarrow> Inl t
         | Inr (query, lmt) \<Rightarrow>
             (case await (service_searchDatasets toLowerCase up query lmt) of
                Inl t \<Rightarrow> Inl t
              | Inr results \<Rightarrow>
                  Inr (SearchDatasetsResult query (items results) (total_count results))))
      else if name = ''get_observation'' then
        (case parse (GetObservationArgsSchema args) of
           Inl t \<Rightarrow> Inl t
         | Inr (dataset_id, edition, version, dimensions) \<Rightarrow>
             (case await (service_getObservations up dataset_id edition version dimensions) of
                Inl t \<Rightarrow> Inl t
              | Inr obs \<Rightarrow> Inr (GetObservationResult obs)))
      else if name = ''get_latest_data'' then
        (case parse (GetLatestDataArgsSchema args) of
           Inl t \<Rightarrow> Inl t
         | Inr (dataset_id, geography, time_period) \<Rightarrow>
             (case await (service_getLatestData up dataset_id geography time_period) of
                Inl t \<Rightarrow> Inl t
              | Inr data \<Rightarrow> Inr (GetLatestDataResult data)))
      else Inl (McpError MethodNotFound (''Unknown tool: '' @ name)))"

text \<open>
  The handler: the \<open>catch\<close> turns a \<open>ZodError\<close> into an \<open>InvalidParams\<close> error and throws
  anything else again. The text of \<open>ZodError.message\<close> is the library's rendering of the
  issues, a parameter here, as is the host's \<open>toLowerCase\<close> that the search uses.
\<close>

definition CallTool ::
  "(zod_issue list \<Rightarrow> string) \<Rightarrow> (string \<Rightarrow> string) \<Rightarrow> upstream \<Rightarrow> string
     \<Rightarrow> (string \<times> json) list option \<Rightarrow> thrown + tool_result" where
  "CallTool zod_message toLowerCase up name args =
     (case tool_switch toLowerCase up name args of
        Inl (ZodError issues) \<Rightarrow>
          Inl (McpError InvalidParams (''Invalid parameters: '' @ zod_message issues))
      | Inl other \<Rightarrow> Inl other
      | Inr r \<Rightarrow> Inr r)"

section \<open>Notions of the specification\<close>

text \<open>
  The query string in the words of the specification: the entries as \<open>key=value\<close>, with
  an ampersand before every entry but the first.
\<close>

fun query_string :: "(string \<times> string) list \<Rightarrow> string" where
  "query_string [] = []"
| "query_string ((k, v) # rest) = k @ ''='' @ v @ concat (map (\<lambda>(k', v'). ''&'' @ k' @ ''='' @ v') rest)"

text \<open>The number that a string of decimal digits denotes.\<close>

definition decimal_value :: "string \<Rightarrow> nat" where
  "decimal_value s = foldl (\<lambda>acc c. 10 * acc + (of_char c - 48)) 0 s"

text \<open>
  A field contains the query case-insensitively: the lower-cased query is a contiguous part
  of the lower-cased field, for the host's conversion to lower case.
\<close>

definition contains_ci :: "(string \<Rightarrow> string) \<Rightarrow> string \<Rightarrow> string \<Rightarrow> bool" where
  "contains_ci toLowerCase field query = sublist (toLowerCase query) (toLowerCase field)"

text \<open>
  A comparison function is consistent when the relation \<open>comparefn a b \<le> 0\<close> is total and
  transitive; only then does the language fix the result of a sort.
\<close>

definition matches_query :: "(string \<Rightarrow> string) \<Rightarrow> string \<Rightarrow> ONSDataset \<Rightarrow> bool" where
  "matches_query toLowerCase query d =
     (contains_ci toLowerCase (ds_title d) query \<or>
      contains_ci toLowerCase (ds_description d) query \<or>
      contains_ci toLowerCase (ds_id d) query)"

text \<open>
  \<open>getLatestData\<close> sends the filter \<open>dims\<close> to \<open>getObservations\<close>: its outcome is the
  outcome of that call, a failure wrapped with the dataset id, a response reshaped with
  the filter recorded as \<open>dimensions_used\<close>.
\<close>

definition sends_filter ::
  "upstream \<Rightarrow> string \<Rightarrow> string option \<Rightarrow> string option \<Rightarrow> (string \<times> string) list \<Rightarrow> bool" where
  "sends_filter up datasetId geography timePeriod dims =
     (case service_getObservations up datasetId ''time-series'' ''latest'' dims of
        Inl e \<Rightarrow>
          service_getLatestData up datasetId geography timePeriod =
            Inl (Error (''Failed to get latest data for '' @ datasetId @ '': '' @ error_message e))
      | Inr obs \<Rightarrow>
          (\<exists>r. service_getLatestData up datasetId geography timePeriod = Inr r \<and>
               dimensions_used r = dims \<and>
               ld_observations r = resp_observations obs \<and>
               ld_total_observations r = resp_total_observations obs \<and>
               filters_applied r = \<lparr>fa_geography = geography, fa_time_period = timePeriod\<rparr>))"

text \<open>The five operations of the tool surface.\<close>

definition tool_names :: "string list" where
  "tool_names =
     [''list_datasets'', ''get_dataset'', ''search_datasets'', ''get_observation'', ''get_latest_data'']"

definition consistent_comparator :: "('a \<Rightarrow> 'a \<Rightarrow> int) \<Rightarrow> bool" where
  "consistent_comparator comparefn =
     ((\<forall>a b. comparefn a b \<le> 0 \<or> comparefn b a \<le> 0) \<and>
      (\<forall>a b c. comparefn a b \<le> 0 \<longrightarrow> comparefn b c \<le> 0 \<longrightarrow> comparefn a c \<le> 0))"

text \<open>
  A collation in the manner of the Unicode collation algorithm, on ASCII letters and
  digits: strings are compared letter by letter without regard to case, and only when that
  ties does case decide, lower case first. This is how \<open>localeCompare\<close> orders such strings
  in the default locale: \<open>'a' < 'B'\<close> there, while \<open>'B' < 'a'\<close> by character code.
\<close>

definition lower_char :: "char \<Rightarrow> char" where
  "lower_char c = (if CHR ''A'' \<le> c \<and> c \<le> CHR ''Z'' then char_of (of_char c + (32::nat)) else c)"

definition is_upper :: "char \<Rightarrow> bool" where
  "is_upper c = (CHR ''A'' \<le> c \<and> c \<le> CHR ''Z'')"

definition collation_key :: "string \<Rightarrow> string \<times> bool list" where
  "collation_key s = (map lower_char s, map is_upper s)"

definition collate :: "string \<Rightarrow> string \<Rightarrow> int" where
  "collate a b =
     (if collation_key a < collation_key b then - 1
      else if collation_key a = collation_key b then 0 else 1)"

section \<open>Sample data\<close>

text \<open>What \<open>toLowerCase\<close> does to a string of ASCII characters.\<close>

definition ascii_toLowerCase :: "string \<Rightarrow> string" where
  "ascii_toLowerCase s = map lower_char s"

definition time_dimension :: ONSDimension where
  "time_dimension = \<lparr>dim_id = ''time'', dim_name = ''time'', dim_label = ''Time''\<rparr>"

definition geography_dimension :: ONSDimension where
  "geography_dimension = \<lparr>dim_id = ''geography'', dim_name = ''geography'', dim_label = ''Geography''\<rparr>"

definition cpih01 :: ONSDataset where
  "cpih01 = \<lparr>ds_id = ''cpih01'', ds_title = ''CPIH'', ds_description = ''UK inflation'',
     ds_state = ''published'', ds_type = ''filterable'', ds_uri = ''/datasets/cpih01'',
     ds_dimensions = Some [time_dimension, geography_dimension]\<rparr>"

definition regional_gdp :: ONSDataset where
  "regional_gdp = \<lparr>ds_id = ''regional-gdp-by-year'', ds_title = ''Regional GDP by Year'',
     ds_description = ''GDP by UK region'', ds_state = ''published'', ds_type = ''filterable'',
     ds_uri = ''/datasets/regional-gdp-by-year'', ds_dimensions = Some [time_dimension]\<rparr>"

definition trade :: ONSDataset where
  "trade = \<lparr>ds_id = ''trade'', ds_title = ''UK Trade'', ds_description = ''Trade in goods'',
     ds_state = ''published'', ds_type = ''filterable'', ds_uri = ''/datasets/trade'',
     ds_dimensions = None\<rparr>"

definition observation_at :: "string \<Rightarrow> string \<Rightarrow> ONSObservation" where
  "observation_at t v =
     \<lparr>obs_dimensions = [(''geography'', ''K02000001''), (''time'', t)],
      obs_observation = v, obs_metadata = None\<rparr>"

definition sample_observations :: ONSObservationResponse where
  "sample_observations =
     \<lparr>resp_observations = [observation_at ''2020-Q2'' ''101.5'', observation_at ''2020-q1'' ''100.0''],
      resp_dimensions = [], resp_links = [], resp_total_observations = 2\<rparr>"

definition not_found_rejection :: axios_error where
  "not_found_rejection =
     \<lparr>response = Some \<lparr>status = 404, data_message = Some ''dataset not found''\<rparr>,
      message = ''Request failed with status code 404''\<rparr>"

definition unavailable_rejection :: axios_error where
  "unavailable_rejection =
     \<lparr>response = Some \<lparr>status = 503, data_message = None\<rparr>,
      message = ''Request failed with status code 503''\<rparr>"

definition timeout_rejection :: axios_error where
  "timeout_rejection = \<lparr>response = None, message = ''timeout of 10000ms exceeded''\<rparr>"

text \<open>
  An upstream with a catalogue of three datasets that answers every observations request
  with the same two observations and fails every options request.
\<close>

definition sample_upstream :: upstream where
  "sample_upstream =
     \<lparr>GET_datasets = (\<lambda>lmt ofs.
        Inr \<lparr>count = 3, items = [cpih01, regional_gdp, trade], limit = lmt, offset = ofs,
             total_count = 337\<rparr>),
      GET_dataset = (\<lambda>url.
        if url = ''/datasets/cpih01'' then Inr cpih01
        else if url = ''/datasets/trade'' then Inr trade
        else Inl not_found_rejection),
      GET_observations = (\<lambda>url. Inr sample_observations),
      GET_options = (\<lambda>url. Inl timeout_rejection)\<rparr>"

section \<open>The query string of getObservations\<close>

lemma join_Cons: "join sep (x # xs) = x @ concat (map (\<lambda>y. sep @ y) xs)"
  by (induction xs arbitrary: x) simp_all

lemma join_query_string:
  "join ''&'' (map (\<lambda>(key, val). key @ ''='' @ val) dimensions) = query_string dimensions"
proof (cases dimensions)
  case Nil
  then show ?thesis by simp
next
  case (Cons p ps)
  obtain k v where p: "p = (k, v)" by (cases p)
  have "map ((\<lambda>y. ''&'' @ y) \<circ> (\<lambda>(key, val). key @ ''='' @ val)) ps
        = map (\<lambda>(k', v'). ''&'' @ k' @ ''='' @ v') ps"
    by (rule map_cong) auto
  then show ?thesis
    unfolding Cons p
    by (simp only: list.map join_Cons map_map query_string.simps split append_assoc)
qed

lemma sublist_concat_member:
  assumes "x \<in> set xs"
  shows "sublist x (concat xs)"
proof -
  from assms obtain ys zs where "xs = ys @ x # zs" by (meson split_list)
  then have "concat xs = concat ys @ x @ concat zs" by simp
  then show ?thesis unfolding sublist_def by blast
qed

lemma sublist_query_string:
  assumes "(k, v) \<in> set dimensions"
  shows "sublist (k @ ''='' @ v) (query_string dimensions)"
proof (cases dimensions)
  case Nil
  with assms show ?thesis by simp
next
  case (Cons p rest)
  obtain k' v' where p: "p = (k', v')" by (cases p)
  show ?thesis
  proof (cases "(k, v) = (k', v')")
    case True
    have "query_string dimensions =
            [] @ (k @ ''='' @ v) @ concat (map (\<lambda>(k', v'). ''&'' @ k' @ ''='' @ v') rest)"
      unfolding Cons p using True by simp
    then show ?thesis unfolding sublist_def by blast
  next
    case False
    with assms Cons p have "(k, v) \<in> set rest" by auto
    then have "(''&'' @ k @ ''='' @ v) \<in> set (map (\<lambda>(k', v'). ''&'' @ k' @ ''='' @ v') rest)"
      by force
    then have "sublist (''&'' @ k @ ''='' @ v)
                 (concat (map (\<lambda>(k', v'). ''&'' @ k' @ ''='' @ v') rest))"
      by (rule sublist_concat_member)
    then obtain ps ss where
      "concat (map (\<lambda>(k', v'). ''&'' @ k' @ ''='' @ v') rest) = ps @ (''&'' @ k @ ''='' @ v) @ ss"
      unfolding sublist_def by blast
    then have "query_string dimensions = (k' @ ''='' @ v' @ ps @ ''&'') @ (k @ ''='' @ v) @ ss"
      unfolding Cons p by simp
    then show ?thesis unfolding sublist_def by blast
  qed
qed

text \<open>
  C5. \<open>getObservations\<close> requests the versioned observations path followed by \<open>?\<close> and
  the entries of the dimension mapping as \<open>key=value\<close> joined with \<open>&\<close>. Nothing is
  escaped: every key and value stands in the query string as it was given. The dimensions
  \<open>{geography: 'K02000001', time: '2023'}\<close> give \<open>geography=K02000001&time=2023\<close>.
\<close>

theorem getObservations_query_string:
  "client_getObservations up datasetId edition version dimensions =
     client_get (GET_observations up
       (''/datasets/'' @ datasetId @ ''/editions/'' @ edition @ ''/versions/'' @ version
          @ ''/observations?'' @ query_string dimensions))
   \<and> (\<forall>(k, v) \<in> set dimensions. sublist (k @ ''='' @ v) (query_string dimensions))
   \<and> (dimensions = [(''geography'', ''K02000001''), (''time'', ''2023'')] \<longrightarrow>
        query_string dimensions = ''geography=K02000001&time=2023'')"
proof (intro conjI)
  show "client_getObservations up datasetId edition version dimensions =
     client_get (GET_observations up
       (''/datasets/'' @ datasetId @ ''/editions/'' @ edition @ ''/versions/'' @ version
          @ ''/observations?'' @ query_string dimensions))"
    unfolding client_getObservations_def observations_url_def dimensionParams_def
      join_query_string
    by (rule refl)
  show "\<forall>(k, v) \<in> set dimensions. sublist (k @ ''='' @ v) (query_string dimensions)"
    using sublist_query_string by blast
  show "dimensions = [(''geography'', ''K02000001''), (''time'', ''2023'')] \<longrightarrow>
        query_string dimensions = ''geography=K02000001&time=2023''"
    by simp
qed

theorem getObservations_query_string_witness:
  "client_getObservations sample_upstream ''cpih01'' ''time-series'' ''latest''
       [(''geography'', ''K02000001''), (''time'', ''2023'')] =
     client_get (GET_observations sample_upstream
       ''/datasets/cpih01/editions/time-series/versions/latest/observations?geography=K02000001&time=2023'')
   \<and> sublist ''geography=K02000001'' ''geography=K02000001&time=2023''
   \<and> sublist ''time=2023'' ''geography=K02000001&time=2023''"
proof -
  let ?dims = "[(''geography'', ''K02000001''), (''time'', ''2023'')]"
  note inst = getObservations_query_string [of sample_upstream "''cpih01''" "''time-series''"
      "''latest''" ?dims]
  have q: "query_string ?dims = ''geography=K02000001&time=2023''"
    using inst by blast
  have "\<forall>(k, v) \<in> set ?dims. sublist (k @ ''='' @ v) (query_string ?dims)"
    using inst by blast
  then have "sublist ''geography=K02000001'' ''geography=K02000001&time=2023''"
    and "sublist ''time=2023'' ''geography=K02000001&time=2023''"
    unfolding q by simp_all
  moreover have "client_getObservations sample_upstream ''cpih01'' ''time-series'' ''latest'' ?dims =
     client_get (GET_observations sample_upstream
       ''/datasets/cpih01/editions/time-series/versions/latest/observations?geography=K02000001&time=2023'')"
    using inst unfolding q by simp
  ultimately show ?thesis by blast
qed

section \<open>The failures of the HTTP client wrapper\<close>

lemma digit_char_value:
  assumes "d < 10"
  shows "of_char (digit_char d) - 48 = d"
proof -
  have "of_char (char_of (48 + d)) = (48 + d) mod 256"
    by (rule of_char_of)
  also from assms have "\<dots> = 48 + d" by simp
  finally show ?thesis by (simp add: digit_char_def)
qed

lemma number_to_string_decimal: "decimal_value (number_to_string n) = n"
proof (induction n rule: number_to_string.induct)
  case (1 n)
  show ?case
  proof (cases "n < 10")
    case True
    then show ?thesis
      by (simp add: number_to_string.simps [of n] decimal_value_def digit_char_value)
  next
    case False
    with 1 have ih: "decimal_value (number_to_string (n div 10)) = n div 10" by simp
    have "n mod 10 < 10" by simp
    then have d: "of_char (digit_char (n mod 10)) - 48 = n mod 10"
      by (rule digit_char_value)
    have "decimal_value (number_to_string n) =
        10 * decimal_value (number_to_string (n div 10)) + (of_char (digit_char (n mod 10)) - 48)"
      using False by (simp add: number_to_string.simps [of n] decimal_value_def)
    with ih d show ?thesis by simp
  qed
qed

text \<open>
  C6. A rejection with a response is translated by its status: 404 to the not-found
  failure, 400 to bad request, 429 to rate limited, 500 to server error, any other status
  to the generic failure that carries the status code in decimal. The text ends with the upstream
  message when the body has one (a message that is not empty is the whole detail), and
  with the transport's own message when the body has none. A rejection without a response
  is the network-error failure. Every request of the client fails with the failure so
  translated.
\<close>

theorem interceptor_failure_taxonomy:
  "(response err = Some r \<longrightarrow>
      (\<exists>detail.
         (\<forall>m. data_message r = Some m \<longrightarrow> suffix m detail \<and> (m \<noteq> [] \<longrightarrow> detail = m)) \<and>
         (data_message r = None \<longrightarrow> detail = message err) \<and>
         (status r = 404 \<longrightarrow> interceptor err = Error (''ONS API: Resource not found - '' @ detail)) \<and>
         (status r = 400 \<longrightarrow> interceptor err = Error (''ONS API: Bad request - '' @ detail)) \<and>
         (status r = 429 \<longrightarrow> interceptor err = Error (''ONS API: Rate limit exceeded - '' @ detail)) \<and>
         (status r = 500 \<longrightarrow> interceptor err = Error (''ONS API: Server error - '' @ detail)) \<and>
         (status r \<notin> {404, 400, 429, 500} \<longrightarrow>
            interceptor err =
              Error (''ONS API: HTTP '' @ number_to_string (status r) @ '' - '' @ detail))))
   \<and> (response err = None \<longrightarrow>
        interceptor err = Error (''ONS API: Network error - '' @ message err))
   \<and> (GET_datasets up lmt ofs = Inl err \<longrightarrow>
        client_listDatasets up lmt ofs = Inl (interceptor err))
   \<and> (GET_dataset up (''/datasets/'' @ datasetId) = Inl err \<longrightarrow>
        client_getDataset up datasetId = Inl (interceptor err))
   \<and> (GET_observations up (observations_url datasetId edition version dimensions) = Inl err \<longrightarrow>
        client_getObservations up datasetId edition version dimensions = Inl (interceptor err))
   \<and> (GET_options up (''/datasets/'' @ datasetId @ ''/dimensions/'' @ dimensionId @ ''/options'')
          = Inl err \<longrightarrow>
        client_getDimensionOptions up datasetId dimensionId = Inl (interceptor err))
   \<and> decimal_value (number_to_string n) = n"
proof (intro conjI impI)
  assume r: "response err = Some r"
  let ?detail = "upstream_message r (message err)"
  show "\<exists>detail.
         (\<forall>m. data_message r = Some m \<longrightarrow> suffix m detail \<and> (m \<noteq> [] \<longrightarrow> detail = m)) \<and>
         (data_message r = None \<longrightarrow> detail = message err) \<and>
         (status r = 404 \<longrightarrow> interceptor err = Error (''ONS API: Resource not found - '' @ detail)) \<and>
         (status r = 400 \<longrightarrow> interceptor err = Error (''ONS API: Bad request - '' @ detail)) \<and>
         (status r = 429 \<longrightarrow> interceptor err = Error (''ONS API: Rate limit exceeded - '' @ detail)) \<and>
         (status r = 500 \<longrightarrow> interceptor err = Error (''ONS API: Server error - '' @ detail)) \<and>
         (status r \<notin> {404, 400, 429, 500} \<longrightarrow>
            interceptor err =
              Error (''ONS API: HTTP '' @ number_to_string (status r) @ '' - '' @ detail))"
  proof (intro exI [of _ ?detail] conjI impI allI)
    fix m assume "data_message r = Some m"
    then show "suffix m ?detail" by (simp add: upstream_message_def)
  next
    fix m assume "data_message r = Some m" and "m \<noteq> []"
    then show "?detail = m" by (simp add: upstream_message_def)
  next
    assume "data_message r = None"
    then show "?detail = message err" by (simp add: upstream_message_def)
  next
    assume "status r = 404"
    with r show "interceptor err = Error (''ONS API: Resource not found - '' @ ?detail)"
      unfolding interceptor_def Let_def by simp
  next
    assume "status r = 400"
    with r show "interceptor err = Error (''ONS API: Bad request - '' @ ?detail)"
      unfolding interceptor_def Let_def by simp
  next
    assume "status r = 429"
    with r show "interceptor err = Error (''ONS API: Rate limit exceeded - '' @ ?detail)"
      unfolding interceptor_def Let_def by simp
  next
    assume "status r = 500"
    with r show "interceptor err = Error (''ONS API: Server error - '' @ ?detail)"
      unfolding interceptor_def Let_def by simp
  next
    assume "status r \<notin> {404, 400, 429, 500}"
    then have "status r \<noteq> 404" "status r \<noteq> 400" "status r \<noteq> 429" "status r \<noteq> 500"
      by simp_all
    with r show "interceptor err =
        Error (''ONS API: HTTP '' @ number_to_string (status r) @ '' - '' @ ?detail)"
      unfolding interceptor_def Let_def by simp
  qed
next
  assume "response err = None"
  then show "interceptor err = Error (''ONS API: Network error - '' @ message err)"
    by (simp add: interceptor_def)
next
  assume "GET_datasets up lmt ofs = Inl err"
  then show "client_listDatasets up lmt ofs = Inl (interceptor err)"
    by (simp add: client_listDatasets_def client_get_def)
next
  assume "GET_dataset up (''/datasets/'' @ datasetId) = Inl err"
  then show "client_getDataset up datasetId = Inl (interceptor err)"
    by (simp add: client_getDataset_def client_get_def)
next
  assume "GET_observations up (observations_url datasetId edition version dimensions) = Inl err"
  then show "client_getObservations up datasetId edition version dimensions = Inl (interceptor err)"
    by (simp add: client_getObservations_def client_get_def)
next
  assume "GET_options up (''/datasets/'' @ datasetId @ ''/dimensions/'' @ dimensionId @ ''/options'')
          = Inl err"
  then show "client_getDimensionOptions up datasetId dimensionId = Inl (interceptor err)"
    by (simp add: client_getDimensionOptions_def client_get_def)
next
  show "decimal_value (number_to_string n) = n"
    by (rule number_to_string_decimal)
qed

theorem interceptor_failure_taxonomy_witness:
  "response unavailable_rejection = Some \<lparr>status = 503, data_message = None\<rparr>
   \<and> interceptor unavailable_rejection =
       Error ''ONS API: HTTP 503 - Request failed with status code 503''
   \<and> response timeout_rejection = None
   \<and> interceptor timeout_rejection = Error ''ONS API: Network error - timeout of 10000ms exceeded''
   \<and> GET_dataset sample_upstream ''/datasets/nope'' = Inl not_found_rejection
   \<and> client_getDataset sample_upstream ''nope'' =
       Inl (Error ''ONS API: Resource not found - dataset not found'')"
proof -
  let ?r = "\<lparr>status = 503, data_message = None\<rparr>"
  have resp: "response unavailable_rejection = Some ?r"
    by (simp add: unavailable_rejection_def)
  have digits: "number_to_string 503 = ''503''"
    by code_simp
  from interceptor_failure_taxonomy [where err = unavailable_rejection and r = ?r] resp
  obtain detail where "detail = message unavailable_rejection"
    and "interceptor unavailable_rejection =
           Error (''ONS API: HTTP '' @ number_to_string (status ?r) @ '' - '' @ detail)"
    by auto
  then have generic: "interceptor unavailable_rejection =
       Error ''ONS API: HTTP 503 - Request failed with status code 503''"
    by (simp add: digits unavailable_rejection_def)
  have none: "response timeout_rejection = None"
    by (simp add: timeout_rejection_def)
  with interceptor_failure_taxonomy [where err = timeout_rejection]
  have network: "interceptor timeout_rejection =
      Error ''ONS API: Network error - timeout of 10000ms exceeded''"
    by (simp add: timeout_rejection_def)
  have get: "GET_dataset sample_upstream ''/datasets/nope'' = Inl not_found_rejection"
    by (simp add: sample_upstream_def)
  have "response not_found_rejection =
      Some \<lparr>status = 404, data_message = Some ''dataset not found''\<rparr>"
    by (simp add: not_found_rejection_def)
  with interceptor_failure_taxonomy [where err = not_found_rejection
      and r = "\<lparr>status = 404, data_message = Some ''dataset not found''\<rparr>"]
  obtain detail' where "detail' = ''dataset not found''"
    and "interceptor not_found_rejection = Error (''ONS API: Resource not found - '' @ detail')"
    by auto
  then have nf: "interceptor not_found_rejection =
      Error ''ONS API: Resource not found - dataset not found''"
    by simp
  from interceptor_failure_taxonomy [where err = not_found_rejection and up = sample_upstream
      and datasetId = "''nope''"] get
  have "client_getDataset sample_upstream ''nope'' = Inl (interceptor not_found_rejection)"
    by simp
  with nf have "client_getDataset sample_upstream ''nope'' =
       Inl (Error ''ONS API: Resource not found - dataset not found'')"
    by simp
  with resp generic none network get show ?thesis by blast
qed

section \<open>searchDatasets\<close>

lemma str_includes_sublist: "str_includes s t \<longleftrightarrow> sublist t s"
  by (induction s) (simp_all add: sublist_Cons_right)

lemma dataset_matches_query: "dataset_matches toLowerCase (toLowerCase query) d = matches_query toLowerCase query d"
  by (simp add: dataset_matches_def matches_query_def contains_ci_def str_includes_sublist)

lemma slice0_prefix: "prefix (slice0 xs lmt) xs"
  by (simp add: slice0_def Let_def take_is_prefix)

lemma ToIntegerOrInfinity_nonneg:
  assumes "0 \<le> x"
  shows "0 \<le> ToIntegerOrInfinity x" and "of_int (ToIntegerOrInfinity x) \<le> x"
proof -
  have "ToIntegerOrInfinity x = \<lfloor>x\<rfloor>"
  proof (cases "x = 0")
    case True
    then show ?thesis by (simp add: ToIntegerOrInfinity_def)
  next
    case False
    with assms have "\<not> x < 0" by simp
    then show ?thesis by (simp add: ToIntegerOrInfinity_def)
  qed
  with assms show "0 \<le> ToIntegerOrInfinity x" and "of_int (ToIntegerOrInfinity x) \<le> x"
    by simp_all
qed

lemma slice0_length:
  assumes "0 \<le> lmt"
  shows "of_nat (length (slice0 xs lmt)) \<le> lmt"
proof -
  let ?e = "ToIntegerOrInfinity lmt"
  from assms have e: "0 \<le> ?e" "of_int ?e \<le> lmt"
    by (rule ToIntegerOrInfinity_nonneg)+
  then have "length (slice0 xs lmt) = min (nat ?e) (length xs)"
    by (simp add: slice0_def Let_def min_def)
  then have "int (length (slice0 xs lmt)) \<le> ?e"
    using e(1) by simp
  then have "(of_int (int (length (slice0 xs lmt))) :: rat) \<le> of_int ?e"
    by (simp only: of_int_le_iff)
  with e(2) show ?thesis by simp
qed

lemma searchDatasets_items:
  assumes "client_listDatasets up 100 0 = Inr page"
  shows "client_searchDatasets toLowerCase up query lmt =
           Inr \<lparr>count = of_nat (length (slice0 (filter (matches_query toLowerCase query) (items page)) lmt)),
                items = slice0 (filter (matches_query toLowerCase query) (items page)) lmt,
                limit = lmt, offset = 0,
                total_count = of_nat (length (slice0 (filter (matches_query toLowerCase query) (items page)) lmt))\<rparr>"
proof -
  have "dataset_matches toLowerCase (toLowerCase query) = matches_query toLowerCase query"
    by (rule ext) (rule dataset_matches_query)
  with assms show ?thesis
    by (simp add: client_searchDatasets_def Let_def)
qed

text \<open>
  C1, as amended. The candidates are the items of the page that the listing returns for
  limit 100 and offset 0. When that request succeeds, \<open>searchDatasets\<close> returns an initial
  part of the candidates that match, in the order of the page, so every returned item's
  title, description or id contains the query case-insensitively (whatever the host's
  \<open>toLowerCase\<close> does to the strings) and no dataset outside the page is ever returned;
  for a limit that is not negative it returns at most \<open>limit\<close> items. When the request
  fails, so does the search.
\<close>

theorem searchDatasets_bounded_matching:
  "(client_listDatasets up 100 0 = Inr page \<longrightarrow>
      (\<exists>r. client_searchDatasets toLowerCase up query lmt = Inr r \<and>
           prefix (items r) (filter (matches_query toLowerCase query) (items page)) \<and>
           (\<forall>d \<in> set (items r). d \<in> set (items page) \<and>
              (contains_ci toLowerCase (ds_title d) query \<or>
               contains_ci toLowerCase (ds_description d) query \<or>
               contains_ci toLowerCase (ds_id d) query)) \<and>
           (0 \<le> lmt \<longrightarrow> of_nat (length (items r)) \<le> lmt)))
   \<and> (client_listDatasets up 100 0 = Inl e \<longrightarrow>
        client_searchDatasets toLowerCase up query lmt = Inl e)"
proof (intro conjI impI)
  assume page: "client_listDatasets up 100 0 = Inr page"
  let ?found = "slice0 (filter (matches_query toLowerCase query) (items page)) lmt"
  let ?r = "\<lparr>count = of_nat (length ?found), items = ?found, limit = lmt, offset = 0,
             total_count = of_nat (length ?found)\<rparr>"
  have r: "client_searchDatasets toLowerCase up query lmt = Inr ?r"
    using page by (rule searchDatasets_items)
  have pre: "prefix (items ?r) (filter (matches_query toLowerCase query) (items page))"
    by (simp add: slice0_prefix)
  then have "set (items ?r) \<subseteq> set (filter (matches_query toLowerCase query) (items page))"
    by (rule set_mono_prefix)
  then have mem: "\<forall>d \<in> set (items ?r). d \<in> set (items page) \<and>
              (contains_ci toLowerCase (ds_title d) query \<or>
               contains_ci toLowerCase (ds_description d) query \<or>
               contains_ci toLowerCase (ds_id d) query)"
    by (auto simp: matches_query_def)
  have len: "0 \<le> lmt \<longrightarrow> of_nat (length (items ?r)) \<le> lmt"
    by (simp add: slice0_length)
  from r pre mem len
  show "\<exists>r. client_searchDatasets toLowerCase up query lmt = Inr r \<and>
           prefix (items r) (filter (matches_query toLowerCase query) (items page)) \<and>
           (\<forall>d \<in> set (items r). d \<in> set (items page) \<and>
              (contains_ci toLowerCase (ds_title d) query \<or>
               contains_ci toLowerCase (ds_description d) query \<or>
               contains_ci toLowerCase (ds_id d) query)) \<and>
           (0 \<le> lmt \<longrightarrow> of_nat (length (items r)) \<le> lmt)"
    by (intro exI [of _ ?r] conjI)
next
  assume "client_listDatasets up 100 0 = Inl e"
  then show "client_searchDatasets toLowerCase up query lmt = Inl e"
    by (simp add: client_searchDatasets_def)
qed

theorem searchDatasets_bounded_matching_witness:
  "client_listDatasets sample_upstream 100 0 =
     Inr \<lparr>count = 3, items = [cpih01, regional_gdp, trade], limit = 100, offset = 0,
          total_count = 337\<rparr>
   \<and> client_searchDatasets ascii_toLowerCase sample_upstream ''UK'' 2 =
       Inr \<lparr>count = 2, items = [cpih01, regional_gdp], limit = 2, offset = 0, total_count = 2\<rparr>
   \<and> contains_ci ascii_toLowerCase (ds_description cpih01) ''UK''
   \<and> contains_ci ascii_toLowerCase (ds_description regional_gdp) ''UK''
   \<and> (0::number) \<le> 2
   \<and> (of_nat (length [cpih01, regional_gdp]) :: number) \<le> 2"
proof -
  let ?page = "\<lparr>count = 3, items = [cpih01, regional_gdp, trade], limit = 100, offset = 0,
          total_count = 337\<rparr>"
  have page: "client_listDatasets sample_upstream 100 0 = Inr ?page"
    by (simp add: client_listDatasets_def client_get_def sample_upstream_def)
  have val: "client_searchDatasets ascii_toLowerCase sample_upstream ''UK'' 2 =
       Inr \<lparr>count = 2, items = [cpih01, regional_gdp], limit = 2, offset = 0, total_count = 2\<rparr>"
    by code_simp
  from searchDatasets_bounded_matching [where toLowerCase = ascii_toLowerCase and up = sample_upstream
      and page = ?page and query = "''UK''" and lmt = 2] page
  obtain r where r: "client_searchDatasets ascii_toLowerCase sample_upstream ''UK'' 2 = Inr r"
    and mem: "\<forall>d \<in> set (items r). d \<in> set (items ?page) \<and>
              (contains_ci ascii_toLowerCase (ds_title d) ''UK'' \<or> contains_ci ascii_toLowerCase (ds_description d) ''UK'' \<or>
               contains_ci ascii_toLowerCase (ds_id d) ''UK'')"
    and len: "(0::number) \<le> 2 \<longrightarrow> of_nat (length (items r)) \<le> (2::number)"
    by blast
  from r val have items: "items r = [cpih01, regional_gdp]" by auto
  have c1: "contains_ci ascii_toLowerCase (ds_description cpih01) ''UK''"
    unfolding contains_ci_def by code_simp
  have c2: "contains_ci ascii_toLowerCase (ds_description regional_gdp) ''UK''"
    unfolding contains_ci_def by code_simp
  from len items have "(of_nat (length [cpih01, regional_gdp]) :: number) \<le> 2" by simp
  with page val c1 c2 show ?thesis by simp
qed

text \<open>
  The claim as stated fails for a negative limit: \<open>slice(0, -1)\<close> drops the last match
  only. Three datasets of the sample catalogue match \<open>UK\<close>; with limit \<open>-1\<close> two of them
  are returned.
\<close>

theorem searchDatasets_negative_limit_counterexample:
  "client_searchDatasets ascii_toLowerCase sample_upstream ''UK'' (- 1) =
     Inr \<lparr>count = 2, items = [cpih01, regional_gdp], limit = - 1, offset = 0, total_count = 2\<rparr>
   \<and> \<not> (of_nat (length [cpih01, regional_gdp]) :: number) \<le> - 1"
proof -
  have "client_searchDatasets ascii_toLowerCase sample_upstream ''UK'' (- 1) =
     Inr \<lparr>count = 2, items = [cpih01, regional_gdp], limit = - 1, offset = 0, total_count = 2\<rparr>"
    by code_simp
  then show ?thesis by simp
qed

text \<open>
  C9. The list that \<open>searchDatasets\<close> returns has \<open>count\<close> and \<open>total_count\<close> equal to the
  number of items it returns and \<open>offset\<close> zero. The upstream's own \<open>total_count\<close> plays
  no part: an upstream whose page differs in that field only gives the same result.
\<close>

theorem searchDatasets_counts:
  "client_listDatasets up 100 0 = Inr page \<longrightarrow>
     (\<exists>r. client_searchDatasets toLowerCase up query lmt = Inr r \<and>
          count r = of_nat (length (items r)) \<and>
          total_count r = of_nat (length (items r)) \<and>
          offset r = 0 \<and>
          (\<forall>up' n. client_listDatasets up' 100 0 = Inr (page\<lparr>total_count := n\<rparr>) \<longrightarrow>
             client_searchDatasets toLowerCase up' query lmt = Inr r))"
proof
  assume page: "client_listDatasets up 100 0 = Inr page"
  let ?found = "slice0 (filter (matches_query toLowerCase query) (items page)) lmt"
  let ?r = "\<lparr>count = of_nat (length ?found), items = ?found, limit = lmt, offset = 0,
             total_count = of_nat (length ?found)\<rparr>"
  have r: "client_searchDatasets toLowerCase up query lmt = Inr ?r"
    using page by (rule searchDatasets_items)
  have other: "\<forall>up' n. client_listDatasets up' 100 0 = Inr (page\<lparr>total_count := n\<rparr>) \<longrightarrow>
             client_searchDatasets toLowerCase up' query lmt = Inr ?r"
  proof (intro allI impI)
    fix up' n
    assume "client_listDatasets up' 100 0 = Inr (page\<lparr>total_count := n\<rparr>)"
    then have "client_searchDatasets toLowerCase up' query lmt =
           Inr \<lparr>count = of_nat (length (slice0 (filter (matches_query toLowerCase query)
                    (items (page\<lparr>total_count := n\<rparr>))) lmt)),
                items = slice0 (filter (matches_query toLowerCase query) (items (page\<lparr>total_count := n\<rparr>))) lmt,
                limit = lmt, offset = 0,
                total_count = of_nat (length (slice0 (filter (matches_query toLowerCase query)
                    (items (page\<lparr>total_count := n\<rparr>))) lmt))\<rparr>"
      by (rule searchDatasets_items)
    then show "client_searchDatasets toLowerCase up' query lmt = Inr ?r" by simp
  qed
  have "count ?r = of_nat (length (items ?r))" "total_count ?r = of_nat (length (items ?r))"
    "offset ?r = 0"
    by simp_all
  with r other
  show "\<exists>r. client_searchDatasets toLowerCase up query lmt = Inr r \<and>
          count r = of_nat (length (items r)) \<and>
          total_count r = of_nat (length (items r)) \<and>
          offset r = 0 \<and>
          (\<forall>up' n. client_listDatasets up' 100 0 = Inr (page\<lparr>total_count := n\<rparr>) \<longrightarrow>
             client_searchDatasets toLowerCase up' query lmt = Inr r)"
    by (intro exI [of _ ?r] conjI)
qed

theorem searchDatasets_counts_witness:
  "client_listDatasets sample_upstream 100 0 =
     Inr \<lparr>count = 3, items = [cpih01, regional_gdp, trade], limit = 100, offset = 0,
          total_count = 337\<rparr>
   \<and> (\<exists>r. client_searchDatasets ascii_toLowerCase sample_upstream ''GDP'' 10 = Inr r \<and>
          items r = [regional_gdp] \<and> count r = 1 \<and> total_count r = 1 \<and> offset r = 0)"
proof -
  let ?page = "\<lparr>count = 3, items = [cpih01, regional_gdp, trade], limit = 100, offset = 0,
          total_count = 337\<rparr>"
  have page: "client_listDatasets sample_upstream 100 0 = Inr ?page"
    by (simp add: client_listDatasets_def client_get_def sample_upstream_def)
  have val: "client_searchDatasets ascii_toLowerCase sample_upstream ''GDP'' 10 =
       Inr \<lparr>count = 1, items = [regional_gdp], limit = 10, offset = 0, total_count = 1\<rparr>"
    by code_simp
  from searchDatasets_counts [where toLowerCase = ascii_toLowerCase and up = sample_upstream
      and page = ?page and query = "''GDP''" and lmt = 10] page
  obtain r where r: "client_searchDatasets ascii_toLowerCase sample_upstream ''GDP'' 10 = Inr r"
    and c: "count r = of_nat (length (items r))" "total_count r = of_nat (length (items r))"
      "offset r = 0"
    by blast
  from r val have "items r = [regional_gdp]" by auto
  with c have "items r = [regional_gdp] \<and> count r = 1 \<and> total_count r = 1 \<and> offset r = 0"
    by simp
  with r page show ?thesis by blast
qed

section \<open>getLatestData\<close>

lemma declares_iff: "declares dataset name \<longleftrightarrow> name \<in> set (map dim_id (declared_dimensions dataset))"
  by (auto simp: declares_def declared_dimensions_def list_ex_iff split: option.splits)

lemma latest_dimensions_neither:
  assumes "\<not> truthy geography" and "\<not> truthy timePeriod"
  shows "latest_dimensions dataset geography timePeriod =
           (if declares dataset ''time'' then [(''time'', ''*'')] else []) @
           (if declares dataset ''geography'' then [(''geography'', ''K02000001'')] else [])"
  using assms by (cases geography; cases timePeriod) (simp_all add: latest_dimensions_def)

lemma latest_dimensions_both:
  assumes "g \<noteq> []" and "t \<noteq> []"
  shows "latest_dimensions dataset (Some g) (Some t) = [(''geography'', g), (''time'', t)]"
  using assms by (simp add: latest_dimensions_def)

lemma latest_dimensions_geography_only:
  assumes "g \<noteq> []" and "\<not> truthy timePeriod"
  shows "latest_dimensions dataset (Some g) timePeriod = [(''geography'', g)]"
  using assms by (cases timePeriod) (simp_all add: latest_dimensions_def)

lemma latest_dimensions_time_only:
  assumes "\<not> truthy geography" and "t \<noteq> []"
  shows "latest_dimensions dataset geography (Some t) = [(''time'', t)]"
  using assms by (cases geography) (simp_all add: latest_dimensions_def)

lemma getLatestData_sends:
  assumes "service_getDataset up datasetId = Inr dataset"
  shows "sends_filter up datasetId geography timePeriod
           (latest_dimensions dataset geography timePeriod)"
  using assms
  by (simp add: sends_filter_def service_getLatestData_def Let_def split: sum.splits)

text \<open>
  C2. When \<open>getLatestData\<close> is called with neither geography nor time period (each absent,
  or empty, which the code treats alike) and the dataset is found, the filter it sends to
  \<open>getObservations\<close> has \<open>time = '*'\<close> exactly when the dataset declares a dimension with
  id \<open>time\<close>, \<open>geography = 'K02000001'\<close> exactly when it declares one with id
  \<open>geography\<close>, and no other entry.
\<close>

theorem getLatestData_default_filter:
  "service_getDataset up datasetId = Inr dataset \<longrightarrow>
   \<not> truthy geography \<longrightarrow> \<not> truthy timePeriod \<longrightarrow>
     (\<exists>dims. sends_filter up datasetId geography timePeriod dims \<and>
        ((''time'', ''*'') \<in> set dims \<longleftrightarrow> ''time'' \<in> set (map dim_id (declared_dimensions dataset))) \<and>
        ((''geography'', ''K02000001'') \<in> set dims \<longleftrightarrow>
           ''geography'' \<in> set (map dim_id (declared_dimensions dataset))) \<and>
        set dims \<subseteq> {(''time'', ''*''), (''geography'', ''K02000001'')} \<and>
        distinct (map fst dims))"
proof (intro impI)
  assume ds: "service_getDataset up datasetId = Inr dataset"
    and g: "\<not> truthy geography" and t: "\<not> truthy timePeriod"
  let ?dims = "latest_dimensions dataset geography timePeriod"
  have eq: "?dims =
           (if declares dataset ''time'' then [(''time'', ''*'')] else []) @
           (if declares dataset ''geography'' then [(''geography'', ''K02000001'')] else [])"
    using g t by (rule latest_dimensions_neither)
  have "sends_filter up datasetId geography timePeriod ?dims"
    using ds by (rule getLatestData_sends)
  moreover have "(''time'', ''*'') \<in> set ?dims \<longleftrightarrow>
      ''time'' \<in> set (map dim_id (declared_dimensions dataset))"
    unfolding eq declares_iff [symmetric] by simp
  moreover have "(''geography'', ''K02000001'') \<in> set ?dims \<longleftrightarrow>
      ''geography'' \<in> set (map dim_id (declared_dimensions dataset))"
    unfolding eq declares_iff [symmetric] by simp
  moreover have "set ?dims \<subseteq> {(''time'', ''*''), (''geography'', ''K02000001'')}"
    unfolding eq by auto
  moreover have "distinct (map fst ?dims)"
    unfolding eq by simp
  ultimately show "\<exists>dims. sends_filter up datasetId geography timePeriod dims \<and>
        ((''time'', ''*'') \<in> set dims \<longleftrightarrow> ''time'' \<in> set (map dim_id (declared_dimensions dataset))) \<and>
        ((''geography'', ''K02000001'') \<in> set dims \<longleftrightarrow>
           ''geography'' \<in> set (map dim_id (declared_dimensions dataset))) \<and>
        set dims \<subseteq> {(''time'', ''*''), (''geography'', ''K02000001'')} \<and>
        distinct (map fst dims)"
    by (intro exI [of _ ?dims] conjI)
qed

theorem getLatestData_default_filter_witness:
  "service_getDataset sample_upstream ''cpih01'' = Inr cpih01
   \<and> \<not> truthy None
   \<and> map dim_id (declared_dimensions cpih01) = [''time'', ''geography'']
   \<and> (\<exists>r. service_getLatestData sample_upstream ''cpih01'' None None = Inr r \<and>
          set (dimensions_used r) = {(''time'', ''*''), (''geography'', ''K02000001'')})
   \<and> service_getDataset sample_upstream ''trade'' = Inr trade
   \<and> map dim_id (declared_dimensions trade) = []
   \<and> (\<exists>r. service_getLatestData sample_upstream ''trade'' None None = Inr r \<and>
          dimensions_used r = [])"
proof -
  have obs: "\<And>i dims. service_getObservations sample_upstream i ''time-series'' ''latest'' dims =
      Inr sample_observations"
    by (simp add: service_getObservations_def client_getObservations_def client_get_def
        sample_upstream_def)
  have ds1: "service_getDataset sample_upstream ''cpih01'' = Inr cpih01"
    by (simp add: service_getDataset_def client_getDataset_def client_get_def sample_upstream_def)
  have decl1: "map dim_id (declared_dimensions cpih01) = [''time'', ''geography'']"
    by (simp add: declared_dimensions_def cpih01_def time_dimension_def geography_dimension_def)
  from getLatestData_default_filter [of sample_upstream "''cpih01''" cpih01 None None] ds1
  obtain dims where s: "sends_filter sample_upstream ''cpih01'' None None dims"
    and m: "(''time'', ''*'') \<in> set dims" "(''geography'', ''K02000001'') \<in> set dims"
    and sub: "set dims \<subseteq> {(''time'', ''*''), (''geography'', ''K02000001'')}"
    unfolding decl1 by auto
  from m sub have "set dims = {(''time'', ''*''), (''geography'', ''K02000001'')}" by blast
  with s have r1: "\<exists>r. service_getLatestData sample_upstream ''cpih01'' None None = Inr r \<and>
          set (dimensions_used r) = {(''time'', ''*''), (''geography'', ''K02000001'')}"
    unfolding sends_filter_def obs by auto
  have ds2: "service_getDataset sample_upstream ''trade'' = Inr trade"
    by (simp add: service_getDataset_def client_getDataset_def client_get_def sample_upstream_def)
  have decl2: "map dim_id (declared_dimensions trade) = []"
    by (simp add: declared_dimensions_def trade_def)
  from getLatestData_default_filter [of sample_upstream "''trade''" trade None None] ds2
  obtain dims' where s': "sends_filter sample_upstream ''trade'' None None dims'"
    and none: "(''time'', ''*'') \<notin> set dims'" "(''geography'', ''K02000001'') \<notin> set dims'"
    and sub': "set dims' \<subseteq> {(''time'', ''*''), (''geography'', ''K02000001'')}"
    unfolding decl2 by auto
  from none sub' have "dims' = []" by (cases dims') auto
  with s' have r2: "\<exists>r. service_getLatestData sample_upstream ''trade'' None None = Inr r \<and>
          dimensions_used r = []"
    unfolding sends_filter_def obs by auto
  from ds1 decl1 r1 ds2 decl2 r2 show ?thesis by simp
qed

text \<open>
  C3, as amended. When \<open>getLatestData\<close> is called with a geography and a time period that
  are both non-empty strings and the dataset is found, the defaults play no part, whatever
  the dataset declares: the filter sent to \<open>getObservations\<close> is exactly
  \<open>{geography: given, time: given}\<close>, and \<open>filters_applied\<close> holds the two given values.
\<close>

theorem getLatestData_explicit_filter:
  "service_getDataset up datasetId = Inr dataset \<longrightarrow> g \<noteq> [] \<longrightarrow> t \<noteq> [] \<longrightarrow>
     sends_filter up datasetId (Some g) (Some t) [(''geography'', g), (''time'', t)] \<and>
     (\<forall>r. service_getLatestData up datasetId (Some g) (Some t) = Inr r \<longrightarrow>
        dimensions_used r = [(''geography'', g), (''time'', t)] \<and>
        filters_applied r = \<lparr>fa_geography = Some g, fa_time_period = Some t\<rparr>)"
proof (intro impI)
  assume ds: "service_getDataset up datasetId = Inr dataset" and g: "g \<noteq> []" and t: "t \<noteq> []"
  have "sends_filter up datasetId (Some g) (Some t) (latest_dimensions dataset (Some g) (Some t))"
    using ds by (rule getLatestData_sends)
  then have s: "sends_filter up datasetId (Some g) (Some t) [(''geography'', g), (''time'', t)]"
    unfolding latest_dimensions_both [OF g t] .
  then have "\<forall>r. service_getLatestData up datasetId (Some g) (Some t) = Inr r \<longrightarrow>
        dimensions_used r = [(''geography'', g), (''time'', t)] \<and>
        filters_applied r = \<lparr>fa_geography = Some g, fa_time_period = Some t\<rparr>"
    unfolding sends_filter_def by (auto split: sum.splits)
  with s show "sends_filter up datasetId (Some g) (Some t) [(''geography'', g), (''time'', t)] \<and>
     (\<forall>r. service_getLatestData up datasetId (Some g) (Some t) = Inr r \<longrightarrow>
        dimensions_used r = [(''geography'', g), (''time'', t)] \<and>
        filters_applied r = \<lparr>fa_geography = Some g, fa_time_period = Some t\<rparr>)"
    by (rule conjI)
qed

theorem getLatestData_explicit_filter_witness:
  "service_getDataset sample_upstream ''cpih01'' = Inr cpih01
   \<and> ''E92000001'' \<noteq> [] \<and> ''2023'' \<noteq> []
   \<and> (\<exists>r. service_getLatestData sample_upstream ''cpih01'' (Some ''E92000001'') (Some ''2023'') = Inr r \<and>
          dimensions_used r = [(''geography'', ''E92000001''), (''time'', ''2023'')] \<and>
          filters_applied r = \<lparr>fa_geography = Some ''E92000001'', fa_time_period = Some ''2023''\<rparr>)"
proof -
  have obs: "\<And>i dims. service_getObservations sample_upstream i ''time-series'' ''latest'' dims =
      Inr sample_observations"
    by (simp add: service_getObservations_def client_getObservations_def client_get_def
        sample_upstream_def)
  have ds: "service_getDataset sample_upstream ''cpih01'' = Inr cpih01"
    by (simp add: service_getDataset_def client_getDataset_def client_get_def sample_upstream_def)
  from getLatestData_explicit_filter [of sample_upstream "''cpih01''" cpih01 "''E92000001''" "''2023''"] ds
  have "sends_filter sample_upstream ''cpih01'' (Some ''E92000001'') (Some ''2023'')
          [(''geography'', ''E92000001''), (''time'', ''2023'')]"
    by simp
  then have "\<exists>r. service_getLatestData sample_upstream ''cpih01'' (Some ''E92000001'') (Some ''2023'') = Inr r \<and>
          dimensions_used r = [(''geography'', ''E92000001''), (''time'', ''2023'')] \<and>
          filters_applied r = \<lparr>fa_geography = Some ''E92000001'', fa_time_period = Some ''2023''\<rparr>"
    unfolding sends_filter_def obs by auto
  with ds show ?thesis by simp
qed

text \<open>
  The claim as stated fails for empty strings: they are supplied, yet the code treats them
  as absent and applies the defaults.
\<close>

theorem getLatestData_empty_strings_counterexample:
  "service_getDataset sample_upstream ''cpih01'' = Inr cpih01
   \<and> service_getLatestData sample_upstream ''cpih01'' (Some '''') (Some '''') =
       Inr \<lparr>ld_dataset_id = ''cpih01'', ld_dataset_title = ''CPIH'',
            ld_dataset_description = ''UK inflation'',
            filters_applied = \<lparr>fa_geography = Some '''', fa_time_period = Some ''''\<rparr>,
            dimensions_used = [(''time'', ''*''), (''geography'', ''K02000001'')],
            ld_total_observations = 2,
            ld_observations = resp_observations sample_observations,
            ld_metadata_dimensions = [], ld_metadata_links = []\<rparr>
   \<and> [(''time'', ''*''), (''geography'', ''K02000001'')] \<noteq> [(''geography'', ''''), (''time'', '''')]"
proof -
  have "service_getDataset sample_upstream ''cpih01'' = Inr cpih01"
    by (simp add: service_getDataset_def client_getDataset_def client_get_def sample_upstream_def)
  moreover have "service_getLatestData sample_upstream ''cpih01'' (Some '''') (Some '''') =
       Inr \<lparr>ld_dataset_id = ''cpih01'', ld_dataset_title = ''CPIH'',
            ld_dataset_description = ''UK inflation'',
            filters_applied = \<lparr>fa_geography = Some '''', fa_time_period = Some ''''\<rparr>,
            dimensions_used = [(''time'', ''*''), (''geography'', ''K02000001'')],
            ld_total_observations = 2,
            ld_observations = resp_observations sample_observations,
            ld_metadata_dimensions = [], ld_metadata_links = []\<rparr>"
    by code_simp
  ultimately show ?thesis by simp
qed

text \<open>
  C10, as amended. When exactly one of geography and time period is a non-empty string
  (the other absent or empty) and the dataset is found, no default is applied for the
  other: the filter sent to \<open>getObservations\<close> holds the given entry alone, whatever the
  dataset declares.
\<close>

theorem getLatestData_single_filter:
  "service_getDataset up datasetId = Inr dataset \<longrightarrow>
     (g \<noteq> [] \<longrightarrow> \<not> truthy timePeriod \<longrightarrow>
        sends_filter up datasetId (Some g) timePeriod [(''geography'', g)]) \<and>
     (t \<noteq> [] \<longrightarrow> \<not> truthy geography \<longrightarrow>
        sends_filter up datasetId geography (Some t) [(''time'', t)])"
proof (intro impI conjI)
  assume ds: "service_getDataset up datasetId = Inr dataset"
  {
    assume g: "g \<noteq> []" and t: "\<not> truthy timePeriod"
    have "sends_filter up datasetId (Some g) timePeriod (latest_dimensions dataset (Some g) timePeriod)"
      using ds by (rule getLatestData_sends)
    then show "sends_filter up datasetId (Some g) timePeriod [(''geography'', g)]"
      unfolding latest_dimensions_geography_only [OF g t] .
  }
  {
    assume t: "t \<noteq> []" and g: "\<not> truthy geography"
    have "sends_filter up datasetId geography (Some t) (latest_dimensions dataset geography (Some t))"
      using ds by (rule getLatestData_sends)
    then show "sends_filter up datasetId geography (Some t) [(''time'', t)]"
      unfolding latest_dimensions_time_only [OF g t] .
  }
qed

theorem getLatestData_single_filter_witness:
  "service_getDataset sample_upstream ''cpih01'' = Inr cpih01
   \<and> ''E92000001'' \<noteq> [] \<and> \<not> truthy None
   \<and> (\<exists>r. service_getLatestData sample_upstream ''cpih01'' (Some ''E92000001'') None = Inr r \<and>
          dimensions_used r = [(''geography'', ''E92000001'')])
   \<and> ''2023'' \<noteq> []
   \<and> (\<exists>r. service_getLatestData sample_upstream ''cpih01'' None (Some ''2023'') = Inr r \<and>
          dimensions_used r = [(''time'', ''2023'')])"
proof -
  have obs: "\<And>i dims. service_getObservations sample_upstream i ''time-series'' ''latest'' dims =
      Inr sample_observations"
    by (simp add: service_getObservations_def client_getObservations_def client_get_def
        sample_upstream_def)
  have ds: "service_getDataset sample_upstream ''cpih01'' = Inr cpih01"
    by (simp add: service_getDataset_def client_getDataset_def client_get_def sample_upstream_def)
  note inst = getLatestData_single_filter [of sample_upstream "''cpih01''" cpih01
      "''E92000001''" None "''2023''" None]
  from inst ds
  have "sends_filter sample_upstream ''cpih01'' (Some ''E92000001'') None [(''geography'', ''E92000001'')]"
    by simp
  then have a: "\<exists>r. service_getLatestData sample_upstream ''cpih01'' (Some ''E92000001'') None = Inr r \<and>
          dimensions_used r = [(''geography'', ''E92000001'')]"
    unfolding sends_filter_def obs by auto
  from inst ds
  have "sends_filter sample_upstream ''cpih01'' None (Some ''2023'') [(''time'', ''2023'')]"
    by simp
  then have b: "\<exists>r. service_getLatestData sample_upstream ''cpih01'' None (Some ''2023'') = Inr r \<and>
          dimensions_used r = [(''time'', ''2023'')]"
    unfolding sends_filter_def obs by auto
  from ds a b show ?thesis by simp
qed

text \<open>
  The claim as stated fails when the one argument supplied is the empty string: the
  defaults are applied, for the missing argument and for the supplied one.
\<close>

theorem getLatestData_empty_geography_counterexample:
  "service_getDataset sample_upstream ''cpih01'' = Inr cpih01
   \<and> service_getLatestData sample_upstream ''cpih01'' (Some '''') None =
       Inr \<lparr>ld_dataset_id = ''cpih01'', ld_dataset_title = ''CPIH'',
            ld_dataset_description = ''UK inflation'',
            filters_applied = \<lparr>fa_geography = Some '''', fa_time_period = None\<rparr>,
            dimensions_used = [(''time'', ''*''), (''geography'', ''K02000001'')],
            ld_total_observations = 2,
            ld_observations = resp_observations sample_observations,
            ld_metadata_dimensions = [], ld_metadata_links = []\<rparr>
   \<and> [(''time'', ''*''), (''geography'', ''K02000001'')] \<noteq> [(''geography'', '''')]"
proof -
  have "service_getDataset sample_upstream ''cpih01'' = Inr cpih01"
    by (simp add: service_getDataset_def client_getDataset_def client_get_def sample_upstream_def)
  moreover have "service_getLatestData sample_upstream ''cpih01'' (Some '''') None =
       Inr \<lparr>ld_dataset_id = ''cpih01'', ld_dataset_title = ''CPIH'',
            ld_dataset_description = ''UK inflation'',
            filters_applied = \<lparr>fa_geography = Some '''', fa_time_period = None\<rparr>,
            dimensions_used = [(''time'', ''*''), (''geography'', ''K02000001'')],
            ld_total_observations = 2,
            ld_observations = resp_observations sample_observations,
            ld_metadata_dimensions = [], ld_metadata_links = []\<rparr>"
    by code_simp
  ultimately show ?thesis by simp
qed

section \<open>getTimeSeriesData\<close>

lemma set_insert_sorted: "set (insert_sorted comparefn a bs) = insert a (set bs)"
  by (induction bs) auto

lemma length_insert_sorted: "length (insert_sorted comparefn a bs) = Suc (length bs)"
  by (induction bs) simp_all

lemma set_array_sort: "set (array_sort comparefn xs) = set xs"
  by (induction xs) (simp_all add: set_insert_sorted)

lemma length_array_sort: "length (array_sort comparefn xs) = length xs"
  by (induction xs) (simp_all add: length_insert_sorted)

lemma sorted_insert_sorted:
  assumes total: "\<And>a b. comparefn a b \<le> 0 \<or> comparefn b a \<le> 0"
    and trans: "\<And>a b c. comparefn a b \<le> 0 \<Longrightarrow> comparefn b c \<le> 0 \<Longrightarrow> comparefn a c \<le> 0"
    and sorted: "sorted_wrt (\<lambda>a b. comparefn a b \<le> 0) bs"
  shows "sorted_wrt (\<lambda>a b. comparefn a b \<le> 0) (insert_sorted comparefn a bs)"
  using sorted
proof (induction bs)
  case Nil
  then show ?case by simp
next
  case (Cons b bs)
  show ?case
  proof (cases "comparefn a b \<le> 0")
    case True
    with Cons.prems trans show ?thesis by auto
  next
    case False
    with total have "comparefn b a \<le> 0" by blast
    with False Cons show ?thesis by (auto simp: set_insert_sorted)
  qed
qed

lemma sorted_array_sort:
  assumes total: "\<And>a b. comparefn a b \<le> 0 \<or> comparefn b a \<le> 0"
    and trans: "\<And>a b c. comparefn a b \<le> 0 \<Longrightarrow> comparefn b c \<le> 0 \<Longrightarrow> comparefn a c \<le> 0"
  shows "sorted_wrt (\<lambda>a b. comparefn a b \<le> 0) (array_sort comparefn xs)"
proof (induction xs)
  case Nil
  show ?case by simp
next
  case (Cons x xs)
  from total trans Cons.IH
  have "sorted_wrt (\<lambda>a b. comparefn a b \<le> 0) (insert_sorted comparefn x (array_sort comparefn xs))"
    by (rule sorted_insert_sorted)
  then show ?case by simp
qed

lemma collate_le_iff: "collate a b \<le> 0 \<longleftrightarrow> collation_key a \<le> collation_key b"
  by (auto simp: collate_def)

lemma collate_consistent: "consistent_comparator collate"
  unfolding consistent_comparator_def collate_le_iff
  by (meson linear order_trans)

text \<open>
  C4, as amended. The observations are sorted with \<open>localeCompare\<close>, the collation of the
  host, not by character code. For every consistent \<open>localeCompare\<close> and every
  observation response, the \<open>time_series\<close> that \<open>getTimeSeriesData\<close> returns holds the
  observations of the response, and every adjacent pair (indeed every pair in order) is
  non-decreasing in the \<open>localeCompare\<close> order of the time values, a missing time counting
  as the empty string.
\<close>

theorem getTimeSeriesData_sorted:
  "consistent_comparator localeCompare \<longrightarrow>
   service_getObservations up datasetId ''time-series'' ''latest''
       [(''geography'', (case geography of None \<Rightarrow> ''K02000001'' | Some g \<Rightarrow> g)), (''time'', ''*'')]
     = Inr obs \<longrightarrow>
     (\<exists>r. service_getTimeSeriesData localeCompare up datasetId geography = Inr r \<and>
          (\<forall>i. Suc i < length (time_series r) \<longrightarrow>
             localeCompare (time_of (time_series r ! i)) (time_of (time_series r ! Suc i)) \<le> 0) \<and>
          sorted_wrt (\<lambda>a b. localeCompare (time_of a) (time_of b) \<le> 0) (time_series r) \<and>
          set (time_series r) = set (resp_observations obs) \<and>
          length (time_series r) = length (resp_observations obs))"
proof (intro impI)
  assume cons: "consistent_comparator localeCompare"
    and obs: "service_getObservations up datasetId ''time-series'' ''latest''
       [(''geography'', (case geography of None \<Rightarrow> ''K02000001'' | Some g \<Rightarrow> g)), (''time'', ''*'')]
     = Inr obs"
  let ?cmp = "\<lambda>a b. localeCompare (time_of a) (time_of b)"
  let ?sorted = "array_sort ?cmp (resp_observations obs)"
  let ?r = "\<lparr>ts_dataset_id = datasetId,
            ts_geography = (case geography of None \<Rightarrow> ''K02000001'' | Some g \<Rightarrow> g),
            time_series = ?sorted,
            ts_total_observations = resp_total_observations obs\<rparr>"
  have r: "service_getTimeSeriesData localeCompare up datasetId geography = Inr ?r"
    using obs by (simp add: service_getTimeSeriesData_def Let_def)
  have total: "\<And>a b. ?cmp a b \<le> 0 \<or> ?cmp b a \<le> 0"
    using cons unfolding consistent_comparator_def by blast
  have trans: "\<And>a b c. ?cmp a b \<le> 0 \<Longrightarrow> ?cmp b c \<le> 0 \<Longrightarrow> ?cmp a c \<le> 0"
    using cons unfolding consistent_comparator_def by blast
  have sorted: "sorted_wrt (\<lambda>a b. ?cmp a b \<le> 0) ?sorted"
    using total trans by (rule sorted_array_sort)
  then have adjacent: "\<forall>i. Suc i < length ?sorted \<longrightarrow>
      localeCompare (time_of (?sorted ! i)) (time_of (?sorted ! Suc i)) \<le> 0"
    by (simp add: sorted_wrt_iff_nth_less)
  have "set ?sorted = set (resp_observations obs)" "length ?sorted = length (resp_observations obs)"
    by (simp_all add: set_array_sort length_array_sort)
  with r sorted adjacent
  show "\<exists>r. service_getTimeSeriesData localeCompare up datasetId geography = Inr r \<and>
          (\<forall>i. Suc i < length (time_series r) \<longrightarrow>
             localeCompare (time_of (time_series r ! i)) (time_of (time_series r ! Suc i)) \<le> 0) \<and>
          sorted_wrt (\<lambda>a b. localeCompare (time_of a) (time_of b) \<le> 0) (time_series r) \<and>
          set (time_series r) = set (resp_observations obs) \<and>
          length (time_series r) = length (resp_observations obs)"
    by (intro exI [of _ ?r] conjI) simp_all
qed

theorem getTimeSeriesData_sorted_witness:
  "consistent_comparator collate
   \<and> service_getObservations sample_upstream ''cpih01'' ''time-series'' ''latest''
       [(''geography'', ''K02000001''), (''time'', ''*'')] = Inr sample_observations
   \<and> (\<exists>r. service_getTimeSeriesData collate sample_upstream ''cpih01'' None = Inr r \<and>
          time_series r = [observation_at ''2020-q1'' ''100.0'', observation_at ''2020-Q2'' ''101.5''])
   \<and> collate ''2020-q1'' ''2020-Q2'' \<le> 0"
proof -
  have obs: "service_getObservations sample_upstream ''cpih01'' ''time-series'' ''latest''
       [(''geography'', ''K02000001''), (''time'', ''*'')] = Inr sample_observations"
    by (simp add: service_getObservations_def client_getObservations_def client_get_def
        sample_upstream_def)
  have val: "service_getTimeSeriesData collate sample_upstream ''cpih01'' None =
      Inr \<lparr>ts_dataset_id = ''cpih01'', ts_geography = ''K02000001'',
           time_series = [observation_at ''2020-q1'' ''100.0'', observation_at ''2020-Q2'' ''101.5''],
           ts_total_observations = 2\<rparr>"
    by code_simp
  have t: "time_of (observation_at ''2020-q1'' ''100.0'') = ''2020-q1''"
    "time_of (observation_at ''2020-Q2'' ''101.5'') = ''2020-Q2''"
    by (simp_all add: time_of_def observation_at_def)
  from getTimeSeriesData_sorted [of collate sample_upstream "''cpih01''" None sample_observations]
    collate_consistent obs
  obtain r where r: "service_getTimeSeriesData collate sample_upstream ''cpih01'' None = Inr r"
    and adj: "\<forall>i. Suc i < length (time_series r) \<longrightarrow>
             collate (time_of (time_series r ! i)) (time_of (time_series r ! Suc i)) \<le> 0"
    by auto
  from r val have ts: "time_series r =
      [observation_at ''2020-q1'' ''100.0'', observation_at ''2020-Q2'' ''101.5'']"
    by auto
  with adj have "collate (time_of (time_series r ! 0)) (time_of (time_series r ! Suc 0)) \<le> 0"
    by simp
  with ts t have "collate ''2020-q1'' ''2020-Q2'' \<le> 0" by simp
  with collate_consistent obs r ts show ?thesis by blast
qed

text \<open>
  The claim as stated, with the lexical order of strings by character code, fails under
  such a collation: the series comes back as \<open>2020-q1\<close>, \<open>2020-Q2\<close>, and \<open>2020-q1\<close> is
  lexically greater than \<open>2020-Q2\<close>.
\<close>

theorem getTimeSeriesData_lexical_counterexample:
  "service_getTimeSeriesData collate sample_upstream ''cpih01'' None =
      Inr \<lparr>ts_dataset_id = ''cpih01'', ts_geography = ''K02000001'',
           time_series = [observation_at ''2020-q1'' ''100.0'', observation_at ''2020-Q2'' ''101.5''],
           ts_total_observations = 2\<rparr>
   \<and> \<not> time_of (observation_at ''2020-q1'' ''100.0'') \<le> time_of (observation_at ''2020-Q2'' ''101.5'')"
proof -
  have "service_getTimeSeriesData collate sample_upstream ''cpih01'' None =
      Inr \<lparr>ts_dataset_id = ''cpih01'', ts_geography = ''K02000001'',
           time_series = [observation_at ''2020-q1'' ''100.0'', observation_at ''2020-Q2'' ''101.5''],
           ts_total_observations = 2\<rparr>"
    by code_simp
  moreover have "\<not> time_of (observation_at ''2020-q1'' ''100.0'')
      \<le> time_of (observation_at ''2020-Q2'' ''101.5'')"
    by (simp add: time_of_def observation_at_def)
  ultimately show ?thesis by (rule conjI)
qed

section \<open>getDatasetDimensions\<close>

lemma dimension_detail_fields:
  "dd_id (dimension_detail up datasetId d) = dim_id d"
  "dd_name (dimension_detail up datasetId d) = dim_name d"
  "dd_label (dimension_detail up datasetId d) = dim_label d"
  by (simp_all add: dimension_detail_def split: sum.splits)

lemma dimension_detail_failed:
  assumes "client_getDimensionOptions up datasetId (dim_id d) = Inl e"
  shows "dd_options (dimension_detail up datasetId d) = JArr []"
    and "dd_error (dimension_detail up datasetId d) = Some (error_message e)"
  using assms by (simp_all add: dimension_detail_def)

text \<open>
  C7. When the dataset is found, \<open>getDatasetDimensions\<close> returns, and its result has
  exactly one entry per dimension declared on the dataset, in order and with the
  dimension's id, name and label, whatever the options requests do. The entry of a
  dimension whose options request fails has the empty options list and the message of
  the failure.
\<close>

theorem getDatasetDimensions_one_entry_each:
  "service_getDataset up datasetId = Inr dataset \<longrightarrow>
     (\<exists>r. service_getDatasetDimensions up datasetId = Inr r \<and>
          length (dims_dimensions r) = length (declared_dimensions dataset) \<and>
          map dd_id (dims_dimensions r) = map dim_id (declared_dimensions dataset) \<and>
          map dd_name (dims_dimensions r) = map dim_name (declared_dimensions dataset) \<and>
          map dd_label (dims_dimensions r) = map dim_label (declared_dimensions dataset) \<and>
          (\<forall>i e. i < length (declared_dimensions dataset) \<longrightarrow>
             client_getDimensionOptions up datasetId (dim_id (declared_dimensions dataset ! i)) = Inl e \<longrightarrow>
               dd_options (dims_dimensions r ! i) = JArr [] \<and>
               dd_error (dims_dimensions r ! i) = Some (error_message e)))"
proof
  assume ds: "service_getDataset up datasetId = Inr dataset"
  let ?details = "map (dimension_detail up datasetId) (declared_dimensions dataset)"
  let ?r = "\<lparr>dims_dataset_id = datasetId, dims_dataset_title = ds_title dataset,
            dims_dimensions = ?details\<rparr>"
  have r: "service_getDatasetDimensions up datasetId = Inr ?r"
    using ds by (simp add: service_getDatasetDimensions_def Let_def)
  have len: "length ?details = length (declared_dimensions dataset)"
    by simp
  have ids: "map dd_id ?details = map dim_id (declared_dimensions dataset)"
    and names: "map dd_name ?details = map dim_name (declared_dimensions dataset)"
    and labels: "map dd_label ?details = map dim_label (declared_dimensions dataset)"
    by (simp_all add: dimension_detail_fields)
  have failed: "\<forall>i e. i < length (declared_dimensions dataset) \<longrightarrow>
             client_getDimensionOptions up datasetId (dim_id (declared_dimensions dataset ! i)) = Inl e \<longrightarrow>
               dd_options (?details ! i) = JArr [] \<and>
               dd_error (?details ! i) = Some (error_message e)"
    by (simp add: dimension_detail_failed)
  from r len ids names labels failed
  show "\<exists>r. service_getDatasetDimensions up datasetId = Inr r \<and>
          length (dims_dimensions r) = length (declared_dimensions dataset) \<and>
          map dd_id (dims_dimensions r) = map dim_id (declared_dimensions dataset) \<and>
          map dd_name (dims_dimensions r) = map dim_name (declared_dimensions dataset) \<and>
          map dd_label (dims_dimensions r) = map dim_label (declared_dimensions dataset) \<and>
          (\<forall>i e. i < length (declared_dimensions dataset) \<longrightarrow>
             client_getDimensionOptions up datasetId (dim_id (declared_dimensions dataset ! i)) = Inl e \<longrightarrow>
               dd_options (dims_dimensions r ! i) = JArr [] \<and>
               dd_error (dims_dimensions r ! i) = Some (error_message e))"
    by (intro exI [of _ ?r] conjI) simp_all
qed

theorem getDatasetDimensions_one_entry_each_witness:
  "service_getDataset sample_upstream ''cpih01'' = Inr cpih01
   \<and> declared_dimensions cpih01 = [time_dimension, geography_dimension]
   \<and> client_getDimensionOptions sample_upstream ''cpih01'' ''time'' =
       Inl (Error ''ONS API: Network error - timeout of 10000ms exceeded'')
   \<and> client_getDimensionOptions sample_upstream ''cpih01'' ''geography'' =
       Inl (Error ''ONS API: Network error - timeout of 10000ms exceeded'')
   \<and> (\<exists>r. service_getDatasetDimensions sample_upstream ''cpih01'' = Inr r \<and>
          map dd_id (dims_dimensions r) = [''time'', ''geography''] \<and>
          map dd_options (dims_dimensions r) = [JArr [], JArr []] \<and>
          map dd_error (dims_dimensions r) =
            [Some ''ONS API: Network error - timeout of 10000ms exceeded'',
             Some ''ONS API: Network error - timeout of 10000ms exceeded''])"
proof -
  let ?msg = "''ONS API: Network error - timeout of 10000ms exceeded''"
  have ds: "service_getDataset sample_upstream ''cpih01'' = Inr cpih01"
    by (simp add: service_getDataset_def client_getDataset_def client_get_def sample_upstream_def)
  have decl: "declared_dimensions cpih01 = [time_dimension, geography_dimension]"
    by (simp add: declared_dimensions_def cpih01_def)
  have fail: "\<And>d. client_getDimensionOptions sample_upstream ''cpih01'' d = Inl (Error ?msg)"
    by (simp add: client_getDimensionOptions_def client_get_def sample_upstream_def
        interceptor_def timeout_rejection_def)
  from getDatasetDimensions_one_entry_each [of sample_upstream "''cpih01''" cpih01] ds
  obtain r where r: "service_getDatasetDimensions sample_upstream ''cpih01'' = Inr r"
    and len: "length (dims_dimensions r) = length (declared_dimensions cpih01)"
    and ids: "map dd_id (dims_dimensions r) = map dim_id (declared_dimensions cpih01)"
    and failed: "\<forall>i e. i < length (declared_dimensions cpih01) \<longrightarrow>
             client_getDimensionOptions sample_upstream ''cpih01''
                 (dim_id (declared_dimensions cpih01 ! i)) = Inl e \<longrightarrow>
               dd_options (dims_dimensions r ! i) = JArr [] \<and>
               dd_error (dims_dimensions r ! i) = Some (error_message e)"
    by blast
  from len decl obtain a b where ab: "dims_dimensions r = [a, b]"
    by (cases "dims_dimensions r"; cases "tl (dims_dimensions r)") auto
  from failed [rule_format, of 0 "Error ?msg"] decl fail ab
  have a: "dd_options a = JArr []" "dd_error a = Some ?msg" by simp_all
  from failed [rule_format, of 1 "Error ?msg"] decl fail ab
  have b: "dd_options b = JArr []" "dd_error b = Some ?msg" by simp_all
  from ids decl have "map dd_id (dims_dimensions r) = [''time'', ''geography'']"
    by (simp add: time_dimension_def geography_dimension_def)
  with a b ab r
  have "\<exists>r. service_getDatasetDimensions sample_upstream ''cpih01'' = Inr r \<and>
          map dd_id (dims_dimensions r) = [''time'', ''geography''] \<and>
          map dd_options (dims_dimensions r) = [JArr [], JArr []] \<and>
          map dd_error (dims_dimensions r) = [Some ?msg, Some ?msg]"
    by simp
  with ds decl fail show ?thesis by simp
qed

section \<open>The CallTool handler\<close>

lemma CallTool_zod:
  assumes "tool_switch toLowerCase up name args = Inl (ZodError issues)"
  shows "CallTool zod_message toLowerCase up name args =
           Inl (McpError InvalidParams (''Invalid parameters: '' @ zod_message issues))"
  using assms by (simp add: CallTool_def)

lemma CallTool_thrown:
  assumes "tool_switch toLowerCase up name args = Inl (Thrown e)"
  shows "CallTool zod_message toLowerCase up name args = Inl (Thrown e)"
  using assms by (simp add: CallTool_def)

text \<open>
  C8. For every tool call: when the arguments fail the schema of the named tool, the
  handler raises the invalid-parameters error whose message is \<open>Invalid parameters: \<close>
  followed by the description of the issues; when the name is none of the five tools, it
  raises the method-not-found error \<open>Unknown tool: name\<close>; and when the arguments are
  valid and the service fails, the service's error reaches the caller as it was thrown.
\<close>

theorem CallTool_failures:
  "(name = ''list_datasets'' \<longrightarrow> ListDatasetsArgsSchema args = Inl issues \<longrightarrow>
      CallTool zod_message toLowerCase up name args =
        Inl (McpError InvalidParams (''Invalid parameters: '' @ zod_message issues)))
   \<and> (name = ''get_dataset'' \<longrightarrow> GetDatasetArgsSchema args = Inl issues \<longrightarrow>
      CallTool zod_message toLowerCase up name args =
        Inl (McpError InvalidParams (''Invalid parameters: '' @ zod_message issues)))
   \<and> (name = ''search_datasets'' \<longrightarrow> SearchDatasetsArgsSchema args = Inl issues \<longrightarrow>
      CallTool zod_message toLowerCase up name args =
        Inl (McpError InvalidParams (''Invalid parameters: '' @ zod_message issues)))
   \<and> (name = ''get_observation'' \<longrightarrow> GetObservationArgsSchema args = Inl issues \<longrightarrow>
      CallTool zod_message toLowerCase up name args =
        Inl (McpError InvalidParams (''Invalid parameters: '' @ zod_message issues)))
   \<and> (name = ''get_latest_data'' \<longrightarrow> GetLatestDataArgsSchema args = Inl issues \<longrightarrow>
      CallTool zod_message toLowerCase up name args =
        Inl (McpError InvalidParams (''Invalid parameters: '' @ zod_message issues)))
   \<and> (name \<notin> set tool_names \<longrightarrow>
      CallTool zod_message toLowerCase up name args = Inl (McpError MethodNotFound (''Unknown tool: '' @ name)))
   \<and> (name = ''list_datasets'' \<longrightarrow> ListDatasetsArgsSchema args = Inr (lmt, ofs) \<longrightarrow>
      service_listDatasets up lmt ofs = Inl e \<longrightarrow>
      CallTool zod_message toLowerCase up name args = Inl (Thrown e))
   \<and> (name = ''get_dataset'' \<longrightarrow> GetDatasetArgsSchema args = Inr dataset_id \<longrightarrow>
      service_getDataset up dataset_id = Inl e \<longrightarrow>
      CallTool zod_message toLowerCase up name args = Inl (Thrown e))
   \<and> (name = ''search_datasets'' \<longrightarrow> SearchDatasetsArgsSchema args = Inr (query, lmt) \<longrightarrow>
      service_searchDatasets toLowerCase up query lmt = Inl e \<longrightarrow>
      CallTool zod_message toLowerCase up name args = Inl (Thrown e))
   \<and> (name = ''get_observation'' \<longrightarrow>
      GetObservationArgsSchema args = Inr (dataset_id, edition, version, dimensions) \<longrightarrow>
      service_getObservations up dataset_id edition version dimensions = Inl e \<longrightarrow>
      CallTool zod_message toLowerCase up name args = Inl (Thrown e))
   \<and> (name = ''get_latest_data'' \<longrightarrow>
      GetLatestDataArgsSchema args = Inr (dataset_id, geography, time_period) \<longrightarrow>
      service_getLatestData up dataset_id geography time_period = Inl e \<longrightarrow>
      CallTool zod_message toLowerCase up name args = Inl (Thrown e))"
proof (intro conjI impI)
  assume "name = ''list_datasets''" and "ListDatasetsArgsSchema args = Inl issues"
  then have "tool_switch toLowerCase up name args = Inl (ZodError issues)"
    by (simp add: tool_switch_def parse_def)
  then show "CallTool zod_message toLowerCase up name args =
        Inl (McpError InvalidParams (''Invalid parameters: '' @ zod_message issues))"
    by (rule CallTool_zod)
next
  assume "name = ''get_dataset''" and "GetDatasetArgsSchema args = Inl issues"
  then have "tool_switch toLowerCase up name args = Inl (ZodError issues)"
    by (simp add: tool_switch_def parse_def)
  then show "CallTool zod_message toLowerCase up name args =
        Inl (McpError InvalidParams (''Invalid parameters: '' @ zod_message issues))"
    by (rule CallTool_zod)
next
  assume "name = ''search_datasets''" and "SearchDatasetsArgsSchema args = Inl issues"
  then have "tool_switch toLowerCase up name args = Inl (ZodError issues)"
    by (simp add: tool_switch_def parse_def)
  then show "CallTool zod_message toLowerCase up name args =
        Inl (McpError InvalidParams (''Invalid parameters: '' @ zod_message issues))"
    by (rule CallTool_zod)
next
  assume "name = ''get_observation''" and "GetObservationArgsSchema args = Inl issues"
  then have "tool_switch toLowerCase up name args = Inl (ZodError issues)"
    by (simp add: tool_switch_def parse_def)
  then show "CallTool zod_message toLowerCase up name args =
        Inl (McpError InvalidParams (''Invalid parameters: '' @ zod_message issues))"
    by (rule CallTool_zod)
next
  assume "name = ''get_latest_data''" and "GetLatestDataArgsSchema args = Inl issues"
  then have "tool_switch toLowerCase up name args = Inl (ZodError issues)"
    by (simp add: tool_switch_def parse_def)
  then show "CallTool zod_message toLowerCase up name args =
        Inl (McpError InvalidParams (''Invalid parameters: '' @ zod_message issues))"
    by (rule CallTool_zod)
next
  assume "name \<notin> set tool_names"
  then have "name \<noteq> ''list_datasets''" "name \<noteq> ''get_dataset''" "name \<noteq> ''search_datasets''"
    "name \<noteq> ''get_observation''" "name \<noteq> ''get_latest_data''"
    by (simp_all add: tool_names_def)
  then have "tool_switch toLowerCase up name args = Inl (McpError MethodNotFound (''Unknown tool: '' @ name))"
    unfolding tool_switch_def by (simp only: if_False)
  then show "CallTool zod_message toLowerCase up name args =
      Inl (McpError MethodNotFound (''Unknown tool: '' @ name))"
    by (simp add: CallTool_def)
next
  assume "name = ''list_datasets''" and "ListDatasetsArgsSchema args = Inr (lmt, ofs)"
    and "service_listDatasets up lmt ofs = Inl e"
  then have "tool_switch toLowerCase up name args = Inl (Thrown e)"
    by (simp add: tool_switch_def parse_def await_def)
  then show "CallTool zod_message toLowerCase up name args = Inl (Thrown e)"
    by (rule CallTool_thrown)
next
  assume "name = ''get_dataset''" and "GetDatasetArgsSchema args = Inr dataset_id"
    and "service_getDataset up dataset_id = Inl e"
  then have "tool_switch toLowerCase up name args = Inl (Thrown e)"
    by (simp add: tool_switch_def parse_def await_def)
  then show "CallTool zod_message toLowerCase up name args = Inl (Thrown e)"
    by (rule CallTool_thrown)
next
  assume "name = ''search_datasets''" and "SearchDatasetsArgsSchema args = Inr (query, lmt)"
    and "service_searchDatasets toLowerCase up query lmt = Inl e"
  then have "tool_switch toLowerCase up name args = Inl (Thrown e)"
    by (simp add: tool_switch_def parse_def await_def)
  then show "CallTool zod_message toLowerCase up name args = Inl (Thrown e)"
    by (rule CallTool_thrown)
next
  assume "name = ''get_observation''"
    and "GetObservationArgsSchema args = Inr (dataset_id, edition, version, dimensions)"
    and "service_getObservations up dataset_id edition version dimensions = Inl e"
  then have "tool_switch toLowerCase up name args = Inl (Thrown e)"
    by (simp add: tool_switch_def parse_def await_def)
  then show "CallTool zod_message toLowerCase up name args = Inl (Thrown e)"
    by (rule CallTool_thrown)
next
  assume "name = ''get_latest_data''"
    and "GetLatestDataArgsSchema args = Inr (dataset_id, geography, time_period)"
    and "service_getLatestData up dataset_id geography time_period = Inl e"
  then have "tool_switch toLowerCase up name args = Inl (Thrown e)"
    by (simp add: tool_switch_def parse_def await_def)
  then show "CallTool zod_message toLowerCase up name args = Inl (Thrown e)"
    by (rule CallTool_thrown)
qed

theorem CallTool_failures_witness:
  "GetDatasetArgsSchema (Some []) = Inl [invalid_type [''dataset_id''] ''string'' ''undefined'']
   \<and> CallTool (\<lambda>issues. ''Required'') ascii_toLowerCase sample_upstream ''get_dataset'' (Some []) =
       Inl (McpError InvalidParams ''Invalid parameters: Required'')
   \<and> ''delete_dataset'' \<notin> set tool_names
   \<and> CallTool (\<lambda>issues. ''Required'') ascii_toLowerCase sample_upstream ''delete_dataset'' (Some []) =
       Inl (McpError MethodNotFound ''Unknown tool: delete_dataset'')
   \<and> GetDatasetArgsSchema (Some [(''dataset_id'', JStr ''nope'')]) = Inr ''nope''
   \<and> service_getDataset sample_upstream ''nope'' =
       Inl (Error ''ONS API: Resource not found - dataset not found'')
   \<and> CallTool (\<lambda>issues. ''Required'') ascii_toLowerCase sample_upstream ''get_dataset''
         (Some [(''dataset_id'', JStr ''nope'')]) =
       Inl (Thrown (Error ''ONS API: Resource not found - dataset not found''))"
proof -
  let ?zm = "\<lambda>issues :: zod_issue list. ''Required''"
  let ?e = "Error ''ONS API: Resource not found - dataset not found''"
  have p1: "GetDatasetArgsSchema (Some []) = Inl [invalid_type [''dataset_id''] ''string'' ''undefined'']"
    by (simp add: GetDatasetArgsSchema_def)
  from CallTool_failures [where name = "''get_dataset''" and args = "Some []"
      and issues = "[invalid_type [''dataset_id''] ''string'' ''undefined'']"
      and zod_message = ?zm and toLowerCase = ascii_toLowerCase and up = sample_upstream] p1
  have c1: "CallTool ?zm ascii_toLowerCase sample_upstream ''get_dataset'' (Some []) =
       Inl (McpError InvalidParams ''Invalid parameters: Required'')"
    by simp
  have p2: "''delete_dataset'' \<notin> set tool_names"
    by (simp add: tool_names_def)
  from CallTool_failures [where name = "''delete_dataset''" and args = "Some []"
      and zod_message = ?zm and toLowerCase = ascii_toLowerCase and up = sample_upstream] p2
  have c2: "CallTool ?zm ascii_toLowerCase sample_upstream ''delete_dataset'' (Some []) =
       Inl (McpError MethodNotFound ''Unknown tool: delete_dataset'')"
    by simp
  have p3: "GetDatasetArgsSchema (Some [(''dataset_id'', JStr ''nope'')]) = Inr ''nope''"
    by (simp add: GetDatasetArgsSchema_def)
  have s3: "service_getDataset sample_upstream ''nope'' = Inl ?e"
    by (simp add: service_getDataset_def client_getDataset_def client_get_def sample_upstream_def
        interceptor_def not_found_rejection_def upstream_message_def)
  from CallTool_failures [where name = "''get_dataset''"
      and args = "Some [(''dataset_id'', JStr ''nope'')]" and dataset_id = "''nope''" and e = ?e
      and zod_message = ?zm and toLowerCase = ascii_toLowerCase and up = sample_upstream] p3 s3
  have c3: "CallTool ?zm ascii_toLowerCase sample_upstream ''get_dataset'' (Some [(''dataset_id'', JStr ''nope'')]) =
       Inl (Thrown ?e)"
    by simp
  from p1 c1 p2 c2 p3 s3 c3 show ?thesis by blast
qed

end
